theory Spec2Isabelle
  imports Complex_Main
begin

section \<open>Python values and exceptions\<close>

text \<open>
  The client library of \<^verbatim>\<open>src/rayhunter\<close> turns the loosely typed JSON answers of the
  device into dataclasses. Strings are Python \<^verbatim>\<open>str\<close> values over the code points
  U+0000 to U+00FF, one \<^typ>\<open>char\<close> per code point. Exceptions are values of type
  \<open>error\<close>; a function that can raise returns \<open>error + 'a\<close>.

  A \<^verbatim>\<open>ValueError\<close> carries its message. The message of the repository's own
  \<^verbatim>\<open>raise\<close> is its text; the messages that CPython's builtins make are named by
  their template and argument (\<open>Float_literal s\<close> is "could not convert string to
  float: repr(s)", \<open>Int_literal s\<close> is "invalid literal for int() with base 10:
  repr(s)", \<open>Float_NaN\<close> is "cannot convert float NaN to integer").
\<close>

datatype message = Text string | Float_literal string | Int_literal string | Float_NaN

datatype error =
    ValueError message
  | IndexError
  | KeyError string
  | TypeError
  | AttributeError
  | OverflowError
  | HTTPError int
  | JSONDecodeError
  | RequestException string

text \<open>
  The values held by the mappings of the statistics endpoint and by the fields of a manifest
  entry: JSON strings, and the integers (JSON numbers, or what \<^verbatim>\<open>from_dict\<close> writes
  back).
\<close>

datatype pyval = VStr string | VInt int

type_synonym pydict = "string \<rightharpoonup> pyval"

definition getitem :: "(string \<rightharpoonup> 'v) \<Rightarrow> string \<Rightarrow> error + 'v" where
  \<comment> \<open>\<^verbatim>\<open>d[k]\<close>\<close>
  "getitem d k = (case d k of None \<Rightarrow> Inl (KeyError k) | Some v \<Rightarrow> Inr v)"


section \<open>Strings\<close>

definition rstrip :: "string \<Rightarrow> string \<Rightarrow> string" where
  \<comment> \<open>\<^verbatim>\<open>s.rstrip(chars)\<close>: drops every trailing character that occurs in \<open>chars\<close>\<close>
  "rstrip s chars = rev (dropWhile (\<lambda>c. c \<in> set chars) (rev s))"

definition is_digit :: "char \<Rightarrow> bool" where
  "is_digit c = (48 \<le> (of_char c :: nat) \<and> (of_char c :: nat) \<le> 57)"

definition digit_val :: "char \<Rightarrow> int" where
  "digit_val c = of_char c - 48"

definition digits_val :: "string \<Rightarrow> int" where
  \<comment> \<open>the number a string of decimal digits denotes\<close>
  "digits_val ds = foldl (\<lambda>a c. 10 * a + digit_val c) 0 ds"

definition is_space :: "char \<Rightarrow> bool" where
  \<comment> \<open>the characters that \<^verbatim>\<open>float\<close> and \<^verbatim>\<open>int\<close> strip from both ends of their
     argument: tab, line feed, vertical tab, form feed, carriage return, space, and the
     two other white-space code points below U+0100, U+0085 and U+00A0\<close>
  "is_space c = ((of_char c :: nat) \<in> {9, 10, 11, 12, 13, 32, 133, 160})"

definition strip_space :: "string \<Rightarrow> string" where
  "strip_space s = rev (dropWhile is_space (rev (dropWhile is_space s)))"

fun underscores_ok :: "char \<Rightarrow> string \<Rightarrow> bool" where
  \<comment> \<open>an underscore in a numeric literal stands between two digits; the first argument
     is the character before\<close>
  "underscores_ok prev [] = (prev \<noteq> CHR ''_'')"
| "underscores_ok prev (c # cs) =
     ((if c = CHR ''_'' then is_digit prev else (prev = CHR ''_'' \<longrightarrow> is_digit c))
      \<and> underscores_ok c cs)"

definition parse_sign :: "string \<Rightarrow> bool \<times> string" where
  \<comment> \<open>an optional sign; True for minus\<close>
  "parse_sign s =
     (case s of
        [] \<Rightarrow> (False, [])
      | c # cs \<Rightarrow> if c = CHR ''-'' then (True, cs) else if c = CHR ''+'' then (False, cs)
                 else (False, s))"

definition to_lower :: "char \<Rightarrow> char" where
  "to_lower c = (if 65 \<le> (of_char c :: nat) \<and> (of_char c :: nat) \<le> 90
                 then char_of (of_char c + (32 :: nat)) else c)"


section \<open>Floats\<close>

text \<open>
  A Python \<^verbatim>\<open>float\<close> is an IEEE 754 binary64 number. \<open>Fin m e\<close> is the finite number
  \<open>m * 2 ^ e\<close>, \<open>Infty neg\<close> is plus or minus infinity (minus when \<open>neg\<close>),
  \<open>NaN\<close> is not-a-number. The sign of a zero is not kept: none of the operations used
  here (\<^verbatim>\<open>float(str)\<close>, \<^verbatim>\<open>*\<close>, \<^verbatim>\<open>int\<close>, \<^verbatim>\<open>round\<close>) lets it be
  observed in an integer result.
\<close>

datatype pyfloat = Fin int int | Infty bool | NaN

function bitlen :: "int \<Rightarrow> int" where
  \<comment> \<open>the number of binary digits of a positive \<open>n\<close>\<close>
  "bitlen n = (if n \<le> 0 then 0 else 1 + bitlen (n div 2))"
  by pat_completeness auto
termination
  by (relation "measure nat") auto

declare bitlen.simps [simp del]

definition ilog2 :: "int \<Rightarrow> int \<Rightarrow> int" where
  \<comment> \<open>the integer part of the binary logarithm of \<open>n / d\<close>, for positive \<open>n\<close> and \<open>d\<close>\<close>
  "ilog2 n d =
     (let e = bitlen n - bitlen d
      in if (if 0 \<le> e then d * 2 ^ nat e \<le> n else d \<le> n * 2 ^ nat (- e)) then e else e - 1)"

definition round_half_even :: "int \<Rightarrow> int \<Rightarrow> int" where
  \<comment> \<open>\<open>a / b\<close> rounded to the nearest integer, a tie to the even one, for \<open>a\<close> not
     negative and \<open>b\<close> positive\<close>
  "round_half_even a b =
     (let q = a div b; r = a mod b
      in if 2 * r < b then q else if b < 2 * r then q + 1 else if even q then q else q + 1)"

definition b64_round :: "bool \<Rightarrow> int \<Rightarrow> int \<Rightarrow> pyfloat" where
  \<comment> \<open>the binary64 number nearest to plus or minus \<open>n / d\<close>, for \<open>n\<close> not negative and
     \<open>d\<close> positive (round to nearest, ties to even): 53 significant bits, the last of
     them worth \<open>2 ^ u\<close> with \<open>u\<close> at least \<open>- 1074\<close> (subnormal numbers); a
     result of \<open>2 ^ 1024\<close> or more is infinite, the largest finite number being
     \<open>(2 ^ 53 - 1) * 2 ^ 971\<close>\<close>
  "b64_round neg n d =
     (if n \<le> 0 then Fin 0 0
      else
        let u = max (ilog2 n d) (- 1022) - 52;
            m = (if 0 \<le> u then round_half_even n (d * 2 ^ nat u)
                 else round_half_even (n * 2 ^ nat (- u)) d)
        in if 971 < u \<or> (u = 971 \<and> 2 ^ 53 \<le> m) then Infty neg
           else Fin (if neg then - m else m) u)"

fun py_float_mul :: "pyfloat \<Rightarrow> pyfloat \<Rightarrow> pyfloat" where
  \<comment> \<open>\<^verbatim>\<open>x * y\<close> on floats: the exact product, rounded\<close>
  "py_float_mul (Fin m1 e1) (Fin m2 e2) =
     (let m = m1 * m2; e = e1 + e2
      in if 0 \<le> e then b64_round (m < 0) (\<bar>m\<bar> * 2 ^ nat e) 1
         else b64_round (m < 0) \<bar>m\<bar> (2 ^ nat (- e)))"
| "py_float_mul (Fin m e) (Infty neg) = (if m = 0 then NaN else Infty ((m < 0) \<noteq> neg))"
| "py_float_mul (Infty neg) (Fin m e) = (if m = 0 then NaN else Infty ((m < 0) \<noteq> neg))"
| "py_float_mul (Infty neg1) (Infty neg2) = Infty (neg1 \<noteq> neg2)"
| "py_float_mul NaN y = NaN"
| "py_float_mul x NaN = NaN"

definition py_int_of_float :: "pyfloat \<Rightarrow> error + int" where
  \<comment> \<open>\<^verbatim>\<open>int(x)\<close> on a float: truncation towards zero; infinities and NaN raise\<close>
  "py_int_of_float x =
     (case x of
        Fin m e \<Rightarrow> Inr (if 0 \<le> e then m * 2 ^ nat e else sgn m * (\<bar>m\<bar> div 2 ^ nat (- e)))
      | Infty neg \<Rightarrow> Inl OverflowError
      | NaN \<Rightarrow> Inl (ValueError Float_NaN))"

definition parse_exponent :: "string \<Rightarrow> int option" where
  \<comment> \<open>the optional exponent part \<^verbatim>\<open>e[+-]digits\<close> that ends a float literal\<close>
  "parse_exponent r =
     (case r of
        [] \<Rightarrow> Some 0
      | c # r' \<Rightarrow>
          if c = CHR ''e'' \<or> c = CHR ''E'' then
            (let (neg, ds) = parse_sign r'
             in if ds \<noteq> [] \<and> list_all is_digit ds
                then Some (if neg then - digits_val ds else digits_val ds)
                else None)
          else None)"

definition parse_decimal :: "string \<Rightarrow> (int \<times> int) option" where
  \<comment> \<open>\<^verbatim>\<open>digits [. [digits]] [exponent]\<close> or \<^verbatim>\<open>. digits [exponent]\<close>; the result
     \<open>(n, k)\<close> denotes \<open>n * 10 ^ k\<close>\<close>
  "parse_decimal u =
     (let ip = takeWhile is_digit u; r1 = dropWhile is_digit u;
          (fp, r2) = (case r1 of
                        [] \<Rightarrow> ([], [])
                      | c # r \<Rightarrow> if c = CHR ''.''
                                then (takeWhile is_digit r, dropWhile is_digit r)
                                else ([], r1))
      in if ip = [] \<and> fp = [] then None
         else (case parse_exponent r2 of
                 None \<Rightarrow> None
               | Some x \<Rightarrow> Some (digits_val (ip @ fp), x - int (length fp))))"

definition float_of_literal :: "string \<Rightarrow> pyfloat option" where
  \<comment> \<open>a float literal without surrounding blanks and underscores: a sign, then
     \<^verbatim>\<open>inf\<close>, \<^verbatim>\<open>infinity\<close> or \<^verbatim>\<open>nan\<close> in any case, or a decimal number\<close>
  "float_of_literal t =
     (let (neg, u) = parse_sign t; l = map to_lower u
      in if l = ''inf'' \<or> l = ''infinity'' then Some (Infty neg)
         else if l = ''nan'' then Some NaN
         else (case parse_decimal u of
                 None \<Rightarrow> None
               | Some (n, k) \<Rightarrow>
                   Some (if 0 \<le> k then b64_round neg (n * 10 ^ nat k) 1
                         else b64_round neg n (10 ^ nat (- k)))))"

definition py_float_of_str :: "string \<Rightarrow> error + pyfloat" where
  \<comment> \<open>\<^verbatim>\<open>float(s)\<close> on a string: the correctly rounded value of the literal\<close>
  "py_float_of_str s =
     (let t = strip_space s
      in if underscores_ok (CHR 0x00) t
         then (case float_of_literal (filter (\<lambda>c. c \<noteq> CHR ''_'') t) of
                 None \<Rightarrow> Inl (ValueError (Float_literal s))
               | Some x \<Rightarrow> Inr x)
         else Inl (ValueError (Float_literal s)))"

definition py_int_of_str :: "string \<Rightarrow> error + int" where
  \<comment> \<open>\<^verbatim>\<open>int(s)\<close> on a string, base 10: blanks around, a sign, digits with single
     underscores between them. The interpreter's configurable limit on the length of the
     string (\<^verbatim>\<open>sys.set_int_max_str_digits\<close>) is no part of the model.\<close>
  "py_int_of_str s =
     (let t = strip_space s; (neg, ds) = parse_sign (filter (\<lambda>c. c \<noteq> CHR ''_'') t)
      in if underscores_ok (CHR 0x00) t \<and> ds \<noteq> [] \<and> list_all is_digit ds
         then Inr (if neg then - digits_val ds else digits_val ds)
         else Inl (ValueError (Int_literal s)))"


section \<open>The unit converter (\<^verbatim>\<open>system_stats.py\<close>)\<close>

definition size_str_to_int :: "pyval \<Rightarrow> error + int" where
  \<comment> \<open>\<^verbatim>\<open>_size_str_to_int(size)\<close>. \<^verbatim>\<open>size[-1]\<close> raises IndexError on the empty string
     and TypeError on an integer.\<close>
  "size_str_to_int sz =
     (case sz of
        VInt i \<Rightarrow> Inl TypeError
      | VStr s \<Rightarrow>
          if s = [] then Inl IndexError
          else if last s \<noteq> CHR ''M''
          then Inl (ValueError (Text (''Unsupported size suffix: '' @ [last s] @ '' ('' @ s @ '')'')))
          else (case py_float_of_str (rstrip s ''M'') of
                  Inl e \<Rightarrow> Inl e
                | Inr x \<Rightarrow> py_int_of_float (py_float_mul x (Fin 1048576 0))))"

definition percent_str_to_int :: "pyval \<Rightarrow> error + int" where
  \<comment> \<open>\<^verbatim>\<open>int(v.rstrip("%"))\<close>, the conversion of \<^verbatim>\<open>used_percent\<close> in
     \<^verbatim>\<open>DiskStats.from_dict\<close>; an integer has no \<^verbatim>\<open>rstrip\<close>\<close>
  "percent_str_to_int v =
     (case v of
        VInt i \<Rightarrow> Inl AttributeError
      | VStr s \<Rightarrow> py_int_of_str (rstrip s ''%''))"


section \<open>The statistics models (\<^verbatim>\<open>system_stats.py\<close>)\<close>

text \<open>
  A dataclass does not check the types of its fields, so a field holds whatever value the
  mapping had. \<^verbatim>\<open>C(**d)\<close> succeeds when the keys of \<open>d\<close> are exactly the fields of
  \<open>C\<close> and raises TypeError otherwise.

  \<^verbatim>\<open>from_dict\<close> assigns to the items of the mapping it is given. The mapping is the
  caller's object, so each \<^verbatim>\<open>from_dict\<close> returns, with its result, the mapping as the
  caller finds it afterwards.

  The fields \<^verbatim>\<open>partition\<close> and \<^verbatim>\<open>total\<close> are written \<open>partition'\<close> and
  \<open>total'\<close>: the plain names are constants of the library.
\<close>

record DiskStats =
  partition' :: pyval
  total_size :: pyval
  used_size :: pyval
  available_size :: pyval
  used_percent :: pyval
  mounted_on :: pyval

definition DiskStats_init :: "pydict \<Rightarrow> error + DiskStats" where
  \<comment> \<open>\<^verbatim>\<open>DiskStats(**d)\<close>\<close>
  "DiskStats_init d =
     (if dom d = {''partition'', ''total_size'', ''used_size'', ''available_size'',
                  ''used_percent'', ''mounted_on''}
      then Inr \<lparr>partition' = the (d ''partition''), total_size = the (d ''total_size''),
                used_size = the (d ''used_size''), available_size = the (d ''available_size''),
                used_percent = the (d ''used_percent''), mounted_on = the (d ''mounted_on'')\<rparr>
      else Inl TypeError)"

fun convert_sizes :: "string list \<Rightarrow> pydict \<Rightarrow> pydict \<times> (error + unit)" where
  \<comment> \<open>\<^verbatim>\<open>for key in keys: d[key] = _size_str_to_int(d[key])\<close>, the loop of
     \<^verbatim>\<open>DiskStats.from_dict\<close> and of \<^verbatim>\<open>MemoryStats.from_dict\<close>\<close>
  "convert_sizes [] d = (d, Inr ())"
| "convert_sizes (k # ks) d =
     (case getitem d k of
        Inl e \<Rightarrow> (d, Inl e)
      | Inr v \<Rightarrow>
          (case size_str_to_int v of
             Inl e \<Rightarrow> (d, Inl e)
           | Inr n \<Rightarrow> convert_sizes ks (d(k \<mapsto> VInt n))))"

definition DiskStats_from_dict :: "pydict \<Rightarrow> pydict \<times> (error + DiskStats)" where
  "DiskStats_from_dict disk_stats =
     (case convert_sizes [''total_size'', ''used_size'', ''available_size''] disk_stats of
        (d1, Inl e) \<Rightarrow> (d1, Inl e)
      | (d1, Inr _) \<Rightarrow>
          (case getitem d1 ''used_percent'' of
             Inl e \<Rightarrow> (d1, Inl e)
           | Inr v \<Rightarrow>
               (case percent_str_to_int v of
                  Inl e \<Rightarrow> (d1, Inl e)
                | Inr n \<Rightarrow>
                    (let d2 = d1(''used_percent'' \<mapsto> VInt n) in (d2, DiskStats_init d2)))))"

record MemoryStats =
  total' :: pyval
  used :: pyval
  free :: pyval

definition MemoryStats_init :: "pydict \<Rightarrow> error + MemoryStats" where
  \<comment> \<open>\<^verbatim>\<open>MemoryStats(**d)\<close>\<close>
  "MemoryStats_init d =
     (if dom d = {''total'', ''used'', ''free''}
      then Inr \<lparr>total' = the (d ''total''), used = the (d ''used''), free = the (d ''free'')\<rparr>
      else Inl TypeError)"

definition MemoryStats_from_dict :: "pydict \<Rightarrow> pydict \<times> (error + MemoryStats)" where
  "MemoryStats_from_dict memory_stats =
     (case convert_sizes [''total'', ''used'', ''free''] memory_stats of
        (d1, Inl e) \<Rightarrow> (d1, Inl e)
      | (d1, Inr _) \<Rightarrow> (d1, MemoryStats_init d1))"

record SystemStats =
  disk_stats :: DiskStats
  memory_stats :: MemoryStats

definition SystemStats_from_dict ::
  "(string \<rightharpoonup> pydict) \<Rightarrow> (string \<rightharpoonup> pydict) \<times> (error + SystemStats)" where
  \<comment> \<open>the two nested mappings are distinct objects, as in a decoded JSON document; each is
     left as its \<^verbatim>\<open>from_dict\<close> leaves it\<close>
  "SystemStats_from_dict system_stats =
     (case getitem system_stats ''disk_stats'' of
        Inl e \<Rightarrow> (system_stats, Inl e)
      | Inr dd \<Rightarrow>
          (case DiskStats_from_dict dd of
             (dd', Inl e) \<Rightarrow> (system_stats(''disk_stats'' \<mapsto> dd'), Inl e)
           | (dd', Inr ds) \<Rightarrow>
               (let s1 = system_stats(''disk_stats'' \<mapsto> dd')
                in case getitem s1 ''memory_stats'' of
                     Inl e \<Rightarrow> (s1, Inl e)
                   | Inr md \<Rightarrow>
                       (case MemoryStats_from_dict md of
                          (md', Inl e) \<Rightarrow> (s1(''memory_stats'' \<mapsto> md'), Inl e)
                        | (md', Inr ms) \<Rightarrow>
                            (s1(''memory_stats'' \<mapsto> md'),
                             Inr \<lparr>disk_stats = ds, memory_stats = ms\<rparr>)))))"


section \<open>The manifest models (\<^verbatim>\<open>manifest.py\<close>)\<close>

record QmdlManifestEntry =
  name :: pyval
  start_time :: pyval
  last_message_time :: pyval
  qmdl_size_bytes :: pyval
  analysis_size_bytes :: pyval

definition QmdlManifestEntry_init :: "pydict \<Rightarrow> error + QmdlManifestEntry" where
  \<comment> \<open>\<^verbatim>\<open>QmdlManifestEntry(**x)\<close> for a mapping \<open>x\<close>\<close>
  "QmdlManifestEntry_init x =
     (if dom x = {''name'', ''start_time'', ''last_message_time'', ''qmdl_size_bytes'',
                  ''analysis_size_bytes''}
      then Inr \<lparr>name = the (x ''name''), start_time = the (x ''start_time''),
                last_message_time = the (x ''last_message_time''),
                qmdl_size_bytes = the (x ''qmdl_size_bytes''),
                analysis_size_bytes = the (x ''analysis_size_bytes'')\<rparr>
      else Inl TypeError)"

text \<open>
  The values of the manifest mapping: \<^verbatim>\<open>None\<close>, an entry mapping, a list, and the
  \<^verbatim>\<open>QmdlManifestEntry\<close> objects that \<^verbatim>\<open>from_dict\<close> writes back.
\<close>

datatype mval = MNone | MDict pydict | MEntry QmdlManifestEntry | MList "mval list"

definition entry_of :: "mval \<Rightarrow> error + QmdlManifestEntry" where
  \<comment> \<open>\<^verbatim>\<open>QmdlManifestEntry(**x)\<close>: the argument after \<^verbatim>\<open>**\<close> must be a mapping\<close>
  "entry_of x = (case x of MDict d \<Rightarrow> QmdlManifestEntry_init d | _ \<Rightarrow> Inl TypeError)"

fun entries_of :: "mval list \<Rightarrow> error + QmdlManifestEntry list" where
  \<comment> \<open>the list comprehension, left to right; the first failure ends it\<close>
  "entries_of [] = Inr []"
| "entries_of (x # xs) =
     (case entry_of x of
        Inl e \<Rightarrow> Inl e
      | Inr a \<Rightarrow> (case entries_of xs of Inl e \<Rightarrow> Inl e | Inr as \<Rightarrow> Inr (a # as)))"

definition comprehension :: "mval \<Rightarrow> error + QmdlManifestEntry list" where
  \<comment> \<open>\<^verbatim>\<open>[QmdlManifestEntry(**x) for x in v]\<close>. A list gives its elements; a mapping gives
     its keys, which are strings and no mappings; \<^verbatim>\<open>None\<close> and a dataclass object
     cannot be iterated over.\<close>
  "comprehension v =
     (case v of
        MList xs \<Rightarrow> entries_of xs
      | MDict d \<Rightarrow> if d = Map.empty then Inr [] else Inl TypeError
      | _ \<Rightarrow> Inl TypeError)"

record QmdlManifest =
  entries :: mval
  current_entry :: mval

definition QmdlManifest_init :: "(string \<rightharpoonup> mval) \<Rightarrow> error + QmdlManifest" where
  \<comment> \<open>\<^verbatim>\<open>QmdlManifest(**d)\<close>\<close>
  "QmdlManifest_init d =
     (if dom d = {''entries'', ''current_entry''}
      then Inr \<lparr>entries = the (d ''entries''), current_entry = the (d ''current_entry'')\<rparr>
      else Inl TypeError)"

definition QmdlManifest_from_dict ::
  "(string \<rightharpoonup> mval) \<Rightarrow> (string \<rightharpoonup> mval) \<times> (error + QmdlManifest)" where
  "QmdlManifest_from_dict qmdl_manifest =
     (case getitem qmdl_manifest ''entries'' of
        Inl e \<Rightarrow> (qmdl_manifest, Inl e)
      | Inr v \<Rightarrow>
          (case comprehension v of
             Inl e \<Rightarrow> (qmdl_manifest, Inl e)
           | Inr es \<Rightarrow>
               (let d1 = qmdl_manifest(''entries'' \<mapsto> MList (map MEntry es))
                in case getitem d1 ''current_entry'' of
                     Inl e \<Rightarrow> (d1, Inl e)
                   | Inr c \<Rightarrow>
                       if c \<noteq> MNone then
                         (case entry_of c of
                            Inl e \<Rightarrow> (d1, Inl e)
                          | Inr a \<Rightarrow>
                              (let d2 = d1(''current_entry'' \<mapsto> MEntry a)
                               in (d2, QmdlManifest_init d2)))
                       else (d1, QmdlManifest_init d1))))"


section \<open>The client (\<^verbatim>\<open>api.py\<close>)\<close>

text \<open>
  The network is a parameter. A request is what is handed to \<^verbatim>\<open>requests.get\<close> or
  \<^verbatim>\<open>requests.post\<close>; its URL is kept as the two arguments of
  \<^verbatim>\<open>urllib.parse.urljoin\<close>. A transport answers a request, given the requests sent
  before, with an exception or with a response; a response has its status code, the chunks
  that \<^verbatim>\<open>iter_content\<close> yields (or the exception that ends the download) and the value
  of \<^verbatim>\<open>response.json()\<close> (or the exception it raises). A client method takes the list
  of the requests sent so far and returns it extended, so that the number of requests a call
  makes can be read off. The \<^verbatim>\<open>logging.info\<close> calls are left out.
\<close>

datatype http_method = GET | POST

datatype url = Urljoin string string

record request =
  http_method :: http_method
  target :: url
  stream :: bool

record 'j response =
  status_code :: int
  iter_content :: "error + string list"
  json :: "error + 'j"

type_synonym 'j transport = "request list \<Rightarrow> request \<Rightarrow> error + 'j response"

definition raise_for_status :: "'j response \<Rightarrow> error + unit" where
  \<comment> \<open>\<^verbatim>\<open>Response.raise_for_status\<close> of the \<^verbatim>\<open>requests\<close> library raises HTTPError for
     the client errors 400 to 499 and the server errors 500 to 599, and returns otherwise\<close>
  "raise_for_status r =
     (if 400 \<le> status_code r \<and> status_code r < 600 then Inl (HTTPError (status_code r))
      else Inr ())"

function digits_of :: "int \<Rightarrow> string" where
  \<comment> \<open>the decimal digits of a number that is not negative\<close>
  "digits_of n =
     (if n < 10 then [char_of (48 + n)] else digits_of (n div 10) @ [char_of (48 + n mod 10)])"
  by pat_completeness auto
termination
  by (relation "measure nat") auto

declare digits_of.simps [simp del]

definition str_int :: "int \<Rightarrow> string" where
  \<comment> \<open>\<^verbatim>\<open>str(i)\<close> on an integer\<close>
  "str_int i = (if i < 0 then CHR ''-'' # digits_of (- i) else digits_of i)"

record RayhunterApi =
  url :: string

definition RayhunterApi_init :: "string \<Rightarrow> int \<Rightarrow> RayhunterApi" where
  "RayhunterApi_init hostname port =
     \<lparr>url = ''http://'' @ hostname @ '':'' @ str_int port @ ''/''\<rparr>"

definition send ::
  "'j transport \<Rightarrow> request \<Rightarrow> request list \<Rightarrow> request list \<times> (error + 'j response)" where
  \<comment> \<open>one call of \<^verbatim>\<open>requests.get\<close> or \<^verbatim>\<open>requests.post\<close>, followed by
     \<^verbatim>\<open>response.raise_for_status()\<close>\<close>
  "send tr req w =
     (w @ [req],
      case tr w req of
        Inl e \<Rightarrow> Inl e
      | Inr r \<Rightarrow> (case raise_for_status r of Inl e \<Rightarrow> Inl e | Inr _ \<Rightarrow> Inr r))"

definition get_file_content ::
  "RayhunterApi \<Rightarrow> 'j transport \<Rightarrow> string \<Rightarrow> request list \<Rightarrow> request list \<times> (error + string)"
  where
  \<comment> \<open>\<^verbatim>\<open>_get_file_content\<close>: the chunks are written to a buffer that is read back whole\<close>
  "get_file_content self tr api_endpoint w =
     (case send tr \<lparr>http_method = GET, target = Urljoin (url self) api_endpoint, stream = True\<rparr> w of
        (w', Inl e) \<Rightarrow> (w', Inl e)
      | (w', Inr r) \<Rightarrow>
          (case iter_content r of
             Inl e \<Rightarrow> (w', Inl e)
           | Inr chunks \<Rightarrow> (w', Inr (concat chunks))))"

definition get_manifest ::
  "RayhunterApi \<Rightarrow> (string \<rightharpoonup> mval) transport \<Rightarrow> request list
     \<Rightarrow> request list \<times> (error + QmdlManifest)" where
  "get_manifest self tr w =
     (case send tr \<lparr>http_method = GET, target = Urljoin (url self) ''/api/qmdl-manifest'',
                    stream = False\<rparr> w of
        (w', Inl e) \<Rightarrow> (w', Inl e)
      | (w', Inr r) \<Rightarrow>
          (case json r of
             Inl e \<Rightarrow> (w', Inl e)
           | Inr j \<Rightarrow> (w', snd (QmdlManifest_from_dict j))))"

definition active_recording ::
  "RayhunterApi \<Rightarrow> (string \<rightharpoonup> mval) transport \<Rightarrow> request list \<Rightarrow> request list \<times> (error + bool)"
  where
  "active_recording self tr w =
     (case get_manifest self tr w of
        (w', Inl e) \<Rightarrow> (w', Inl e)
      | (w', Inr manifest) \<Rightarrow> (w', Inr (current_entry manifest \<noteq> MNone)))"

definition get_analysis_report_file ::
  "RayhunterApi \<Rightarrow> 'j transport \<Rightarrow> string \<Rightarrow> request list \<Rightarrow> request list \<times> (error + string)"
  where
  "get_analysis_report_file self tr filename w =
     get_file_content self tr (''/api/analysis-report/'' @ filename) w"

definition get_pcap_file ::
  "RayhunterApi \<Rightarrow> 'j transport \<Rightarrow> string \<Rightarrow> request list \<Rightarrow> request list \<times> (error + string)"
  where
  "get_pcap_file self tr filename w = get_file_content self tr (''/api/pcap/'' @ filename) w"

definition get_qmdl_file ::
  "RayhunterApi \<Rightarrow> 'j transport \<Rightarrow> string \<Rightarrow> request list \<Rightarrow> request list \<times> (error + string)"
  where
  "get_qmdl_file self tr filename w = get_file_content self tr (''/api/qmdl/'' @ filename) w"

definition start_recording ::
  "RayhunterApi \<Rightarrow> 'j transport \<Rightarrow> request list \<Rightarrow> request list \<times> (error + unit)" where
  "start_recording self tr w =
     (case send tr \<lparr>http_method = POST, target = Urljoin (url self) ''/api/start-recording'',
                    stream = False\<rparr> w of
        (w', Inl e) \<Rightarrow> (w', Inl e)
      | (w', Inr r) \<Rightarrow> (w', Inr ()))"

definition stop_recording ::
  "RayhunterApi \<Rightarrow> 'j transport \<Rightarrow> request list \<Rightarrow> request list \<times> (error + unit)" where
  "stop_recording self tr w =
     (case send tr \<lparr>http_method = POST, target = Urljoin (url self) ''/api/stop-recording'',
                    stream = False\<rparr> w of
        (w', Inl e) \<Rightarrow> (w', Inl e)
      | (w', Inr r) \<Rightarrow> (w', Inr ()))"

definition system_stats ::
  "RayhunterApi \<Rightarrow> (string \<rightharpoonup> pydict) transport \<Rightarrow> request list
     \<Rightarrow> request list \<times> (error + SystemStats)" where
  "system_stats self tr w =
     (case send tr \<lparr>http_method = GET, target = Urljoin (url self) ''/api/system-stats'',
                    stream = False\<rparr> w of
        (w', Inl e) \<Rightarrow> (w', Inl e)
      | (w', Inr r) \<Rightarrow>
          (case json r of
             Inl e \<Rightarrow> (w', Inl e)
           | Inr j \<Rightarrow> (w', snd (SystemStats_from_dict j))))"


section \<open>Notions of the specification\<close>

definition decimal :: "string \<Rightarrow> string \<Rightarrow> string" where
  \<comment> \<open>the decimal number written with the integer digits \<open>ds\<close> and the fraction digits
     \<open>fs\<close>: \<^verbatim>\<open>{d}\<close> when there are no fraction digits, \<^verbatim>\<open>{d}.{f}\<close> otherwise\<close>
  "decimal ds fs = (if fs = [] then ds else ds @ ''.'' @ fs)"

definition answer :: "'j response \<Rightarrow> 'j transport" where
  \<comment> \<open>the mocked transport that answers every request with the response \<open>r\<close>\<close>
  "answer r = (\<lambda>w req. Inr r)"

definition entry_keys :: "string set" where
  \<comment> \<open>the field names of \<^verbatim>\<open>QmdlManifestEntry\<close>\<close>
  "entry_keys = {''name'', ''start_time'', ''last_message_time'', ''qmdl_size_bytes'',
                 ''analysis_size_bytes''}"

definition entry_fields :: "pydict \<Rightarrow> QmdlManifestEntry" where
  \<comment> \<open>the entry whose fields are the values of an entry mapping\<close>
  "entry_fields x =
     \<lparr>name = the (x ''name''), start_time = the (x ''start_time''),
      last_message_time = the (x ''last_message_time''),
      qmdl_size_bytes = the (x ''qmdl_size_bytes''),
      analysis_size_bytes = the (x ''analysis_size_bytes'')\<rparr>"

definition dyadic :: "int \<Rightarrow> int \<Rightarrow> rat" where
  \<comment> \<open>the number \<open>m * 2 ^ e\<close> that \<open>Fin m e\<close> stands for\<close>
  "dyadic m e = (if 0 \<le> e then of_int m * 2 ^ nat e else of_int m / 2 ^ nat (- e))"

definition py_round_float :: "pyfloat \<Rightarrow> error + int" where
  \<comment> \<open>\<^verbatim>\<open>round(x)\<close> on a float: the nearest integer, a tie to the even one\<close>
  "py_round_float x =
     (case x of
        Fin m e \<Rightarrow> Inr (if 0 \<le> e then m * 2 ^ nat e
                        else sgn m * round_half_even \<bar>m\<bar> (2 ^ nat (- e)))
      | Infty neg \<Rightarrow> Inl OverflowError
      | NaN \<Rightarrow> Inl (ValueError Float_NaN))"

definition round_megabytes :: "string \<Rightarrow> error + int" where
  \<comment> \<open>the specification's \<^verbatim>\<open>round(value * 1048576)\<close>, \<open>value\<close> being the number
     written before the suffix\<close>
  "round_megabytes p =
     (case py_float_of_str p of
        Inl e \<Rightarrow> Inl e
      | Inr x \<Rightarrow> py_round_float (py_float_mul x (Fin 1048576 0)))"


section \<open>Strings and numeric literals\<close>

lemma is_digit_neq:
  assumes "is_digit c"
  shows "c \<noteq> CHR ''M''" "c \<noteq> CHR ''%''" "c \<noteq> CHR ''_''" "c \<noteq> CHR ''-''" "c \<noteq> CHR ''+''"
    "c \<noteq> CHR ''.''" "c \<noteq> CHR ''i''" "c \<noteq> CHR ''n''" "\<not> is_space c" "to_lower c = c"
  using assms by (auto simp: is_digit_def is_space_def to_lower_def)

lemma rstrip_unchanged: "s \<noteq> [] \<Longrightarrow> last s \<notin> set cs \<Longrightarrow> rstrip s cs = s"
  by (cases s rule: rev_cases) (simp_all add: rstrip_def)

lemma rstrip_suffix: "s \<noteq> [] \<Longrightarrow> last s \<noteq> c \<Longrightarrow> rstrip (s @ [c]) [c] = s"
  by (cases s rule: rev_cases) (simp_all add: rstrip_def)

lemma strip_space_unchanged:
  "s \<noteq> [] \<Longrightarrow> \<not> is_space (hd s) \<Longrightarrow> \<not> is_space (last s) \<Longrightarrow> strip_space s = s"
proof -
  assume s: "s \<noteq> []" and h: "\<not> is_space (hd s)" and l: "\<not> is_space (last s)"
  have "dropWhile is_space s = s"
    using s h by (cases s) simp_all
  moreover have "dropWhile is_space (rev s) = rev s"
    using s l by (cases s rule: rev_cases) simp_all
  ultimately show ?thesis
    by (simp add: strip_space_def)
qed

lemma underscores_ok_none:
  "prev \<noteq> CHR ''_'' \<Longrightarrow> CHR ''_'' \<notin> set s \<Longrightarrow> underscores_ok prev s"
  by (induction s arbitrary: prev) auto

lemma filter_underscore_none: "CHR ''_'' \<notin> set s \<Longrightarrow> filter (\<lambda>c. c \<noteq> CHR ''_'') s = s"
  by (induction s) auto

lemma parse_sign_digit: "s \<noteq> [] \<Longrightarrow> is_digit (hd s) \<Longrightarrow> parse_sign s = (False, s)"
  by (cases s) (auto simp: parse_sign_def dest: is_digit_neq)

lemma digits_val_snoc: "digits_val (ds @ [c]) = 10 * digits_val ds + digit_val c"
  by (simp add: digits_val_def)


lemma digits_set: "list_all is_digit ds \<Longrightarrow> c \<in> set ds \<Longrightarrow> is_digit c"
  by (simp add: list_all_iff)

lemma span_digits_all:
  assumes "list_all is_digit ds"
  shows "takeWhile is_digit ds = ds" and "dropWhile is_digit ds = []"
  using assms by (simp_all add: list_all_iff)

lemma span_digits_point:
  assumes "list_all is_digit ds"
  shows "takeWhile is_digit (ds @ CHR ''.'' # r) = ds"
    and "dropWhile is_digit (ds @ CHR ''.'' # r) = CHR ''.'' # r"
proof -
  have p: "\<not> is_digit (CHR ''.'')"
    by (simp add: is_digit_def)
  have a: "\<And>x. x \<in> set ds \<Longrightarrow> is_digit x"
    using assms by (simp add: list_all_iff)
  show "takeWhile is_digit (ds @ CHR ''.'' # r) = ds"
    using a p by (simp add: takeWhile_append2)
  show "dropWhile is_digit (ds @ CHR ''.'' # r) = CHR ''.'' # r"
    using a p by (simp add: dropWhile_append2)
qed

lemma parse_decimal_decimal:
  assumes "ds \<noteq> []" "list_all is_digit ds" "list_all is_digit fs"
  shows "parse_decimal (decimal ds fs) = Some (digits_val (ds @ fs), - int (length fs))"
proof (cases "fs = []")
  case True
  then show ?thesis
    using assms
    by (simp add: parse_decimal_def decimal_def parse_exponent_def span_digits_all)
next
  case False
  then show ?thesis
    using assms
    by (simp add: parse_decimal_def decimal_def parse_exponent_def span_digits_all
        span_digits_point)
qed

lemma decimal_chars:
  assumes "ds \<noteq> []" "list_all is_digit ds" "list_all is_digit fs"
  shows "decimal ds fs \<noteq> []" "is_digit (hd (decimal ds fs))" "is_digit (last (decimal ds fs))"
    "CHR ''_'' \<notin> set (decimal ds fs)"
proof -
  have a: "\<And>c. c \<in> set ds \<Longrightarrow> is_digit c" and b: "\<And>c. c \<in> set fs \<Longrightarrow> is_digit c"
    using assms by (simp_all add: list_all_iff)
  show "decimal ds fs \<noteq> []"
    using assms(1) by (simp add: decimal_def)
  show "is_digit (hd (decimal ds fs))"
    using assms(1) a by (simp add: decimal_def)
  show "is_digit (last (decimal ds fs))"
    using assms(1) a b by (simp add: decimal_def)
  show "CHR ''_'' \<notin> set (decimal ds fs)"
    using a b is_digit_neq(3) by (auto simp: decimal_def)
qed

lemma float_of_literal_decimal:
  assumes "ds \<noteq> []" "list_all is_digit ds" "list_all is_digit fs"
  shows "float_of_literal (decimal ds fs)
         = Some (b64_round False (digits_val (ds @ fs)) (10 ^ length fs))"
proof -
  let ?p = "decimal ds fs"
  obtain c cs where p: "?p = c # cs" and c: "is_digit c"
    using decimal_chars(1,2) [OF assms] by (cases ?p) auto
  have s: "parse_sign ?p = (False, ?p)"
    using decimal_chars(1,2) [OF assms] by (rule parse_sign_digit)
  have l: "map to_lower ?p = c # map to_lower cs"
    using p c by (simp add: is_digit_neq)
  have n: "map to_lower ?p \<noteq> ''inf''" "map to_lower ?p \<noteq> ''infinity''"
    "map to_lower ?p \<noteq> ''nan''"
    using l c by (auto dest: is_digit_neq)
  show ?thesis
    using s n parse_decimal_decimal [OF assms]
    by (cases "fs = []") (simp_all add: float_of_literal_def)
qed

lemma py_float_of_str_decimal:
  assumes "ds \<noteq> []" "list_all is_digit ds" "list_all is_digit fs"
  shows "py_float_of_str (decimal ds fs)
         = Inr (b64_round False (digits_val (ds @ fs)) (10 ^ length fs))"
proof -
  note d = decimal_chars [OF assms]
  have "strip_space (decimal ds fs) = decimal ds fs"
    using d by (simp add: strip_space_unchanged is_digit_neq)
  then show ?thesis
    using d(4) float_of_literal_decimal [OF assms]
    by (simp add: py_float_of_str_def underscores_ok_none filter_underscore_none)
qed


section \<open>The unit converter\<close>

lemma size_str_to_int_decimal:
  assumes "ds \<noteq> []" "list_all is_digit ds" "list_all is_digit fs"
  shows "size_str_to_int (VStr (decimal ds fs @ ''M''))
         = py_int_of_float (py_float_mul (b64_round False (digits_val (ds @ fs)) (10 ^ length fs))
             (Fin 1048576 0))"
proof -
  note d = decimal_chars [OF assms]
  have "rstrip (decimal ds fs @ ''M'') ''M'' = decimal ds fs"
    using d by (simp add: rstrip_suffix is_digit_neq)
  then show ?thesis
    using py_float_of_str_decimal [OF assms] by (simp add: size_str_to_int_def)
qed

lemma round_half_even_nonneg: "0 \<le> a \<Longrightarrow> 0 \<le> b \<Longrightarrow> 0 \<le> round_half_even a b"
  by (simp add: round_half_even_def Let_def pos_imp_zdiv_nonneg_iff div_int_pos_iff)

lemma b64_round_nonneg:
  assumes "0 \<le> d"
  shows "b64_round False n d = Infty False \<or> (\<exists>m e. b64_round False n d = Fin m e \<and> 0 \<le> m)"
proof (cases "n \<le> 0")
  case True
  then show ?thesis by (simp add: b64_round_def)
next
  case False
  then have "0 \<le> n" by simp
  then show ?thesis
    using assms False by (auto simp: b64_round_def Let_def intro!: round_half_even_nonneg)
qed

lemma py_float_mul_megabyte_nonneg:
  assumes "x = Infty False \<or> (\<exists>m e. x = Fin m e \<and> 0 \<le> m)"
  shows "py_float_mul x (Fin 1048576 0) = Infty False
         \<or> (\<exists>m e. py_float_mul x (Fin 1048576 0) = Fin m e \<and> 0 \<le> m)"
proof -
  from assms consider "x = Infty False" | m e where "x = Fin m e" "0 \<le> m"
    by blast
  then show ?thesis
  proof cases
    case 1
    then show ?thesis by simp
  next
    case 2
    have "\<not> m * 1048576 < 0"
      using 2(2) by simp
    then show ?thesis
      using 2 b64_round_nonneg [of 1 "\<bar>m * 1048576\<bar> * 2 ^ nat e"]
        b64_round_nonneg [of "2 ^ nat (- e)" "\<bar>m * 1048576\<bar>"]
      by (simp add: Let_def)
  qed
qed

lemma megabyte_product_nonneg:
  "py_float_mul (b64_round False n (10 ^ k)) (Fin 1048576 0) = Infty False
   \<or> (\<exists>m e. py_float_mul (b64_round False n (10 ^ k)) (Fin 1048576 0) = Fin m e \<and> 0 \<le> m)"
proof -
  have "b64_round False n (10 ^ k) = Infty False
        \<or> (\<exists>m e. b64_round False n (10 ^ k) = Fin m e \<and> 0 \<le> m)"
    by (rule b64_round_nonneg) simp
  then show ?thesis
    by (rule py_float_mul_megabyte_nonneg)
qed

lemma py_int_of_float_floor:
  assumes "0 \<le> m"
  shows "py_int_of_float (Fin m e) = Inr \<lfloor>dyadic m e\<rfloor>"
proof (cases "0 \<le> e")
  case True
  have "\<lfloor>(of_int m :: rat) * 2 ^ nat e\<rfloor> = m * 2 ^ nat e"
    by (metis floor_of_int of_int_mult of_int_numeral of_int_power)
  then show ?thesis
    using True by (simp add: py_int_of_float_def dyadic_def)
next
  case False
  have "\<lfloor>(of_int m :: rat) / 2 ^ nat (- e)\<rfloor> = m div 2 ^ nat (- e)"
    using floor_divide_of_int_eq [of m "2 ^ nat (- e)", where ?'a = rat] by simp
  moreover have "sgn m * (\<bar>m\<bar> div 2 ^ nat (- e)) = m div 2 ^ nat (- e)"
    using assms by (cases "m = 0") simp_all
  ultimately show ?thesis
    using False by (simp add: py_int_of_float_def dyadic_def)
qed

lemma round_half_even_cases: "round_half_even a b = a div b \<or> round_half_even a b = a div b + 1"
  by (simp add: round_half_even_def Let_def)

lemma py_round_float_near:
  assumes "0 \<le> m" "py_int_of_float (Fin m e) = Inr n" "py_round_float (Fin m e) = Inr r"
  shows "r = n \<or> r = n + 1"
proof (cases "m = 0")
  case True
  then show ?thesis
    using assms(2,3) by (auto simp: py_int_of_float_def py_round_float_def split: if_splits)
next
  case False
  then have "sgn m = 1" "\<bar>m\<bar> = m"
    using assms(1) by simp_all
  then show ?thesis
    using assms(2,3) round_half_even_cases [of m "2 ^ nat (- e)"]
    by (auto simp: py_int_of_float_def py_round_float_def split: if_splits)
qed

lemma float_of_str_examples:
  "py_float_of_str ''0.1'' = Inr (Fin 7205759403792794 (- 56))"
  "py_float_of_str ''9007199254740993'' = Inr (Fin 4503599627370496 1)"
  "py_float_of_str ''1.7976931348623157e308'' = Inr (Fin 9007199254740991 971)"
  "py_float_of_str ''1.7976931348623159e308'' = Inr (Infty False)"
  "py_float_of_str ''5e-324'' = Inr (Fin 1 (- 1074))"
  "py_float_of_str '' -1_0.5e0 '' = Inr (Fin (- 5910974510923776) (- 49))"
  "py_float_of_str ''-Infinity'' = Inr (Infty True)"
  "py_float_of_str ''1.5.0'' = Inl (ValueError (Float_literal ''1.5.0''))"
  by code_simp+

text \<open>
  Beyond the range of a float the product is infinite and \<^verbatim>\<open>int\<close> raises
  OverflowError: the megabyte string of a one and 303 zeros is such a string.
\<close>

lemma size_str_to_int_overflow:
  "size_str_to_int (VStr (CHR ''1'' # replicate 303 (CHR ''0'') @ ''M'')) = Inl OverflowError"
  by code_simp



text \<open>
  Claim C2, as amended. For every megabyte string \<^verbatim>\<open>{d}.{f}M\<close> the conversion yields
  \<^verbatim>\<open>int(value * 1048576)\<close>: the product of the float nearest to the decimal value with
  1048576, truncated and not rounded (OverflowError where that product is infinite). Where
  \<^verbatim>\<open>round(value * 1048576)\<close> differs from the result, it is the next integer.
\<close>

theorem size_str_to_int_truncates:
  assumes "ds \<noteq> []" "list_all is_digit ds" "fs \<noteq> []" "list_all is_digit fs"
  shows "(case py_float_mul (b64_round False (digits_val (ds @ fs)) (10 ^ length fs))
                 (Fin 1048576 0) of
            Fin m e \<Rightarrow>
              0 \<le> m \<and> size_str_to_int (VStr (ds @ ''.'' @ fs @ ''M'')) = Inr \<lfloor>dyadic m e\<rfloor>
          | Infty neg \<Rightarrow>
              \<not> neg \<and> size_str_to_int (VStr (ds @ ''.'' @ fs @ ''M'')) = Inl OverflowError
          | NaN \<Rightarrow> False)
       \<and> (\<forall>n r. size_str_to_int (VStr (ds @ ''.'' @ fs @ ''M'')) = Inr n
                 \<and> round_megabytes (ds @ ''.'' @ fs) = Inr r
             \<longrightarrow> r = n \<or> r = n + 1)"
proof -
  let ?y = "py_float_mul (b64_round False (digits_val (ds @ fs)) (10 ^ length fs)) (Fin 1048576 0)"
  have d: "decimal ds fs = ds @ ''.'' @ fs"
    using assms(3) by (simp add: decimal_def)
  have r: "size_str_to_int (VStr (ds @ ''.'' @ fs @ ''M'')) = py_int_of_float ?y"
    using size_str_to_int_decimal [OF assms(1,2,4)] d by simp
  have s: "round_megabytes (ds @ ''.'' @ fs) = py_round_float ?y"
    using py_float_of_str_decimal [OF assms(1,2,4)] d by (simp add: round_megabytes_def)
  have c: "?y = Infty False \<or> (\<exists>m e. ?y = Fin m e \<and> 0 \<le> m)"
    by (rule megabyte_product_nonneg)
  then have 1: "case ?y of
      Fin m e \<Rightarrow> 0 \<le> m \<and> size_str_to_int (VStr (ds @ ''.'' @ fs @ ''M'')) = Inr \<lfloor>dyadic m e\<rfloor>
    | Infty neg \<Rightarrow> \<not> neg \<and> size_str_to_int (VStr (ds @ ''.'' @ fs @ ''M'')) = Inl OverflowError
    | NaN \<Rightarrow> False"
  proof
    assume "?y = Infty False"
    then show ?thesis
      using r by (simp add: py_int_of_float_def)
  next
    assume "\<exists>m e. ?y = Fin m e \<and> 0 \<le> m"
    then obtain m e where f: "?y = Fin m e" and m: "0 \<le> m"
      by blast
    show ?thesis
      using r f m py_int_of_float_floor [OF m, of e] by simp
  qed
  have 2: "r' = n \<or> r' = n + 1" if "py_int_of_float ?y = Inr n" "py_round_float ?y = Inr r'" for n r'
  proof -
    have "?y \<noteq> Infty False"
      using that(1) by (auto simp: py_int_of_float_def)
    with c obtain m e where "?y = Fin m e" "0 \<le> m"
      by blast
    then show ?thesis
      using that py_round_float_near by simp
  qed
  from 1 2 show ?thesis
    using r s by simp
qed

theorem size_str_to_int_truncates_witness:
  "size_str_to_int (VStr (''197'' @ ''.'' @ ''2'' @ ''M'')) = Inr 206779187"
proof -
  have h: "''197'' \<noteq> []" "list_all is_digit ''197''" "''2'' \<noteq> []" "list_all is_digit ''2''"
    by (simp_all add: is_digit_def)
  have v: "py_float_mul (b64_round False (digits_val (''197'' @ ''2'')) (10 ^ length ''2''))
             (Fin 1048576 0) = Fin 6938358175917670 (- 25)"
    by code_simp
  have f: "\<lfloor>dyadic 6938358175917670 (- 25)\<rfloor> = 206779187"
    unfolding dyadic_def by (rule floor_unique) simp_all
  note t = size_str_to_int_truncates [OF h, THEN conjunct1]
  from t [unfolded v] show ?thesis
    by (simp add: f)
qed

theorem size_str_to_int_not_rounded:
  "size_str_to_int (VStr ''0.6M'') = Inr 629145 \<and> round_megabytes ''0.6'' = Inr 629146
   \<and> round ((6 / 10 :: rat) * 1048576) = 629146"
proof -
  have "size_str_to_int (VStr ''0.6M'') = Inr 629145"
    by code_simp
  moreover have "round_megabytes ''0.6'' = Inr 629146"
    by code_simp
  moreover have "round ((6 / 10 :: rat) * 1048576) = (629146 :: int)"
    unfolding round_def by (rule floor_unique) simp_all
  ultimately show ?thesis
    by simp
qed

text \<open>
  Claim C3. For every non-empty string whose last character is not \<^verbatim>\<open>M\<close>,
  \<^verbatim>\<open>_size_str_to_int\<close> raises a ValueError whose message holds that last character and
  the whole string. The function has no effect besides its result: it takes a string and
  returns an integer or an exception, and touches no state.
\<close>

theorem size_str_to_int_bad_suffix:
  assumes "s \<noteq> []" "last s \<noteq> CHR ''M''"
  shows "size_str_to_int (VStr s)
         = Inl (ValueError (Text (''Unsupported size suffix: '' @ [last s] @ '' ('' @ s @ '')'')))"
  using assms by (simp add: size_str_to_int_def)

theorem size_str_to_int_bad_suffix_witness:
  "size_str_to_int (VStr ''12K'') = Inl (ValueError (Text ''Unsupported size suffix: K (12K)''))"
  using size_str_to_int_bad_suffix [of "''12K''"] by simp



text \<open>
  Claim C10. On the empty string \<^verbatim>\<open>_size_str_to_int\<close> raises IndexError, from
  \<^verbatim>\<open>size[-1]\<close>, and not the ValueError of the suffix check, which is never reached.
\<close>

theorem size_str_to_int_empty:
  "size_str_to_int (VStr []) = Inl IndexError"
  by (simp add: size_str_to_int_def)


section \<open>The statistics models\<close>

lemma convert_sizes_three:
  assumes "d k1 = Some v1" "d k2 = Some v2" "d k3 = Some v3" "k1 \<noteq> k2" "k1 \<noteq> k3" "k2 \<noteq> k3"
    "size_str_to_int v1 = Inr a" "size_str_to_int v2 = Inr b" "size_str_to_int v3 = Inr c"
  shows "convert_sizes [k1, k2, k3] d = (d(k1 \<mapsto> VInt a, k2 \<mapsto> VInt b, k3 \<mapsto> VInt c), Inr ())"
  using assms by (simp add: getitem_def)

lemma convert_sizes_second_fails:
  assumes "d k1 = Some v1" "d k2 = Some v2" "k1 \<noteq> k2"
    "size_str_to_int v1 = Inr a" "size_str_to_int v2 = Inl e"
  shows "convert_sizes (k1 # k2 # ks) d = (d(k1 \<mapsto> VInt a), Inl e)"
  using assms by (simp add: getitem_def)

lemma DiskStats_from_dict_ok:
  assumes dom: "dom d = {''partition'', ''total_size'', ''used_size'', ''available_size'',
                  ''used_percent'', ''mounted_on''}"
    and "d ''partition'' = Some pv" "d ''mounted_on'' = Some mv"
    and "d ''total_size'' = Some ts" "d ''used_size'' = Some us" "d ''available_size'' = Some av"
    and "d ''used_percent'' = Some ps"
    and "size_str_to_int ts = Inr a" "size_str_to_int us = Inr b" "size_str_to_int av = Inr c"
    and "percent_str_to_int ps = Inr p"
  shows "DiskStats_from_dict d =
    (d(''total_size'' \<mapsto> VInt a, ''used_size'' \<mapsto> VInt b, ''available_size'' \<mapsto> VInt c,
       ''used_percent'' \<mapsto> VInt p),
     Inr \<lparr>partition' = pv, total_size = VInt a, used_size = VInt b, available_size = VInt c,
          used_percent = VInt p, mounted_on = mv\<rparr>)"
proof -
  have c: "convert_sizes [''total_size'', ''used_size'', ''available_size''] d
           = (d(''total_size'' \<mapsto> VInt a, ''used_size'' \<mapsto> VInt b, ''available_size'' \<mapsto> VInt c),
              Inr ())"
    using assms by (intro convert_sizes_three) simp_all
  have k: "dom (d(''total_size'' \<mapsto> VInt a, ''used_size'' \<mapsto> VInt b, ''available_size'' \<mapsto> VInt c,
       ''used_percent'' \<mapsto> VInt p)) = {''partition'', ''total_size'', ''used_size'', ''available_size'',
                  ''used_percent'', ''mounted_on''}"
    using dom by auto
  show ?thesis
    unfolding DiskStats_from_dict_def c
    using assms(2-) k by (simp add: getitem_def DiskStats_init_def Let_def)
qed

lemma MemoryStats_from_dict_ok:
  assumes dom: "dom d = {''total'', ''used'', ''free''}"
    and "d ''total'' = Some ts" "d ''used'' = Some us" "d ''free'' = Some fs"
    and "size_str_to_int ts = Inr a" "size_str_to_int us = Inr b" "size_str_to_int fs = Inr c"
  shows "MemoryStats_from_dict d =
    (d(''total'' \<mapsto> VInt a, ''used'' \<mapsto> VInt b, ''free'' \<mapsto> VInt c),
     Inr \<lparr>total' = VInt a, used = VInt b, free = VInt c\<rparr>)"
proof -
  have c: "convert_sizes [''total'', ''used'', ''free''] d
           = (d(''total'' \<mapsto> VInt a, ''used'' \<mapsto> VInt b, ''free'' \<mapsto> VInt c), Inr ())"
    using assms by (intro convert_sizes_three) simp_all
  have k: "dom (d(''total'' \<mapsto> VInt a, ''used'' \<mapsto> VInt b, ''free'' \<mapsto> VInt c))
           = {''total'', ''used'', ''free''}"
    using dom by auto
  show ?thesis
    unfolding MemoryStats_from_dict_def c
    using k by (simp add: MemoryStats_init_def)
qed

lemma DiskStats_from_dict_partial:
  assumes "d ''total_size'' = Some ts" "d ''used_size'' = Some us"
    and "size_str_to_int ts = Inr a" "size_str_to_int us = Inl e"
  shows "DiskStats_from_dict d = (d(''total_size'' \<mapsto> VInt a), Inl e)"
proof -
  have "convert_sizes [''total_size'', ''used_size'', ''available_size''] d
        = (d(''total_size'' \<mapsto> VInt a), Inl e)"
    using assms by (intro convert_sizes_second_fails) simp_all
  then show ?thesis
    by (simp add: DiskStats_from_dict_def)
qed

lemma MemoryStats_from_dict_partial:
  assumes "d ''total'' = Some ts" "d ''used'' = Some us"
    and "size_str_to_int ts = Inr a" "size_str_to_int us = Inl e"
  shows "MemoryStats_from_dict d = (d(''total'' \<mapsto> VInt a), Inl e)"
proof -
  have "convert_sizes [''total'', ''used'', ''free''] d = (d(''total'' \<mapsto> VInt a), Inl e)"
    using assms by (intro convert_sizes_second_fails) simp_all
  then show ?thesis
    by (simp add: MemoryStats_from_dict_def)
qed

text \<open>
  Claim C7. Given a mapping with the six keys of \<^verbatim>\<open>DiskStats\<close>, whose three sizes are
  strings that \<^verbatim>\<open>_size_str_to_int\<close> converts and whose \<^verbatim>\<open>used_percent\<close> is a string
  that the percent conversion converts, \<^verbatim>\<open>DiskStats.from_dict\<close> returns the DiskStats
  with the converted byte counts, the parsed percentage and the two other strings
  unchanged. On the example of the specification \<^verbatim>\<open>total_size\<close> is 225129267, which is
  \<^verbatim>\<open>round(214.7 * 1048576)\<close>, and \<^verbatim>\<open>used_percent\<close> is 8.
\<close>

theorem DiskStats_from_dict_converts:
  "(\<forall>d pv mv ts us av ps a b c p.
      dom d = {''partition'', ''total_size'', ''used_size'', ''available_size'',
               ''used_percent'', ''mounted_on''}
      \<and> d ''partition'' = Some (VStr pv) \<and> d ''mounted_on'' = Some (VStr mv)
      \<and> d ''total_size'' = Some (VStr ts) \<and> d ''used_size'' = Some (VStr us)
      \<and> d ''available_size'' = Some (VStr av) \<and> d ''used_percent'' = Some (VStr ps)
      \<and> size_str_to_int (VStr ts) = Inr a \<and> size_str_to_int (VStr us) = Inr b
      \<and> size_str_to_int (VStr av) = Inr c \<and> percent_str_to_int (VStr ps) = Inr p
      \<longrightarrow> snd (DiskStats_from_dict d)
          = Inr \<lparr>partition' = VStr pv, total_size = VInt a, used_size = VInt b,
                 available_size = VInt c, used_percent = VInt p, mounted_on = VStr mv\<rparr>)
   \<and> snd (DiskStats_from_dict
          [''partition'' \<mapsto> VStr ''ubi0:usrfs'', ''total_size'' \<mapsto> VStr ''214.7M'',
           ''used_size'' \<mapsto> VStr ''17.5M'', ''available_size'' \<mapsto> VStr ''197.2M'',
           ''used_percent'' \<mapsto> VStr ''8%'', ''mounted_on'' \<mapsto> VStr ''/data''])
     = Inr \<lparr>partition' = VStr ''ubi0:usrfs'', total_size = VInt 225129267,
            used_size = VInt 18350080, available_size = VInt 206779187,
            used_percent = VInt 8, mounted_on = VStr ''/data''\<rparr>
   \<and> round_megabytes ''214.7'' = Inr 225129267
   \<and> round ((2147 / 10 :: rat) * 1048576) = 225129267"
proof (intro conjI allI impI)
  fix d pv mv ts us av ps a b c p
  assume "dom d = {''partition'', ''total_size'', ''used_size'', ''available_size'',
               ''used_percent'', ''mounted_on''}
      \<and> d ''partition'' = Some (VStr pv) \<and> d ''mounted_on'' = Some (VStr mv)
      \<and> d ''total_size'' = Some (VStr ts) \<and> d ''used_size'' = Some (VStr us)
      \<and> d ''available_size'' = Some (VStr av) \<and> d ''used_percent'' = Some (VStr ps)
      \<and> size_str_to_int (VStr ts) = Inr a \<and> size_str_to_int (VStr us) = Inr b
      \<and> size_str_to_int (VStr av) = Inr c \<and> percent_str_to_int (VStr ps) = Inr p"
  then show "snd (DiskStats_from_dict d)
          = Inr \<lparr>partition' = VStr pv, total_size = VInt a, used_size = VInt b,
                 available_size = VInt c, used_percent = VInt p, mounted_on = VStr mv\<rparr>"
    using DiskStats_from_dict_ok [of d "VStr pv" "VStr mv" "VStr ts" "VStr us" "VStr av" "VStr ps"
        a b c p]
    by simp
next
  let ?d = "[''partition'' \<mapsto> VStr ''ubi0:usrfs'', ''total_size'' \<mapsto> VStr ''214.7M'',
           ''used_size'' \<mapsto> VStr ''17.5M'', ''available_size'' \<mapsto> VStr ''197.2M'',
           ''used_percent'' \<mapsto> VStr ''8%'', ''mounted_on'' \<mapsto> VStr ''/data'']"
  have k: "dom ?d = {''partition'', ''total_size'', ''used_size'', ''available_size'',
               ''used_percent'', ''mounted_on''}"
    by auto
  have v: "?d ''partition'' = Some (VStr ''ubi0:usrfs'')" "?d ''mounted_on'' = Some (VStr ''/data'')"
    "?d ''total_size'' = Some (VStr ''214.7M'')" "?d ''used_size'' = Some (VStr ''17.5M'')"
    "?d ''available_size'' = Some (VStr ''197.2M'')" "?d ''used_percent'' = Some (VStr ''8%'')"
    by simp_all
  have s: "size_str_to_int (VStr ''214.7M'') = Inr 225129267"
    "size_str_to_int (VStr ''17.5M'') = Inr 18350080"
    "size_str_to_int (VStr ''197.2M'') = Inr 206779187"
    "percent_str_to_int (VStr ''8%'') = Inr 8"
    by code_simp+
  show "snd (DiskStats_from_dict ?d)
     = Inr \<lparr>partition' = VStr ''ubi0:usrfs'', total_size = VInt 225129267,
            used_size = VInt 18350080, available_size = VInt 206779187,
            used_percent = VInt 8, mounted_on = VStr ''/data''\<rparr>"
    using DiskStats_from_dict_ok [of ?d _ _ _ _ _ _ _ _ _ _, OF k v s] by simp
next
  show "round_megabytes ''214.7'' = Inr 225129267"
    by code_simp
next
  show "round ((2147 / 10 :: rat) * 1048576) = 225129267"
    unfolding round_def by (rule floor_unique) simp_all
qed

theorem DiskStats_from_dict_converts_witness:
  "snd (DiskStats_from_dict
          [''partition'' \<mapsto> VStr ''/dev/root'', ''total_size'' \<mapsto> VStr ''2M'',
           ''used_size'' \<mapsto> VStr ''0.5M'', ''available_size'' \<mapsto> VStr ''1.5M'',
           ''used_percent'' \<mapsto> VStr ''25%'', ''mounted_on'' \<mapsto> VStr ''/''])
     = Inr \<lparr>partition' = VStr ''/dev/root'', total_size = VInt 2097152,
            used_size = VInt 524288, available_size = VInt 1572864,
            used_percent = VInt 25, mounted_on = VStr ''/''\<rparr>"
proof -
  let ?d = "[''partition'' \<mapsto> VStr ''/dev/root'', ''total_size'' \<mapsto> VStr ''2M'',
           ''used_size'' \<mapsto> VStr ''0.5M'', ''available_size'' \<mapsto> VStr ''1.5M'',
           ''used_percent'' \<mapsto> VStr ''25%'', ''mounted_on'' \<mapsto> VStr ''/'']"
  have k: "dom ?d = {''partition'', ''total_size'', ''used_size'', ''available_size'',
               ''used_percent'', ''mounted_on''}"
    by auto
  have s: "size_str_to_int (VStr ''2M'') = Inr 2097152"
    "size_str_to_int (VStr ''0.5M'') = Inr 524288"
    "size_str_to_int (VStr ''1.5M'') = Inr 1572864"
    "percent_str_to_int (VStr ''25%'') = Inr 25"
    by code_simp+
  have "dom ?d = {''partition'', ''total_size'', ''used_size'', ''available_size'',
               ''used_percent'', ''mounted_on''}
      \<and> ?d ''partition'' = Some (VStr ''/dev/root'') \<and> ?d ''mounted_on'' = Some (VStr ''/'')
      \<and> ?d ''total_size'' = Some (VStr ''2M'') \<and> ?d ''used_size'' = Some (VStr ''0.5M'')
      \<and> ?d ''available_size'' = Some (VStr ''1.5M'') \<and> ?d ''used_percent'' = Some (VStr ''25%'')
      \<and> size_str_to_int (VStr ''2M'') = Inr 2097152 \<and> size_str_to_int (VStr ''0.5M'') = Inr 524288
      \<and> size_str_to_int (VStr ''1.5M'') = Inr 1572864 \<and> percent_str_to_int (VStr ''25%'') = Inr 25"
    using k s by simp
  from DiskStats_from_dict_converts [THEN conjunct1, rule_format,
      of ?d "''/dev/root''" "''/''" "''2M''" "''0.5M''" "''1.5M''" "''25%''"
        2097152 524288 1572864 25, OF this]
  show ?thesis .
qed

section \<open>The manifest models\<close>

lemma QmdlManifestEntry_init_ok:
  "dom x = entry_keys \<Longrightarrow> QmdlManifestEntry_init x = Inr (entry_fields x)"
  by (simp add: QmdlManifestEntry_init_def entry_keys_def entry_fields_def)

lemma entry_of_ok: "dom x = entry_keys \<Longrightarrow> entry_of (MDict x) = Inr (entry_fields x)"
  by (simp add: entry_of_def QmdlManifestEntry_init_ok)

lemma entries_of_ok:
  "\<forall>x \<in> set es. dom x = entry_keys \<Longrightarrow> entries_of (map MDict es) = Inr (map entry_fields es)"
  by (induction es) (simp_all add: entry_of_ok)

lemma entry_fields_inj:
  assumes "dom x = entry_keys" "dom y = entry_keys" "entry_fields x = entry_fields y"
  shows "x = y"
proof
  fix k
  show "x k = y k"
  proof (cases "k \<in> entry_keys")
    case True
    then have "k \<in> dom x" "k \<in> dom y"
      using assms by simp_all
    then obtain a b where ab: "x k = Some a" "y k = Some b"
      by blast
    have "the (x k) = the (y k)"
      using True assms(3) by (auto simp: entry_keys_def entry_fields_def)
    then show ?thesis
      using ab by simp
  next
    case False
    then have "k \<notin> dom x" "k \<notin> dom y"
      using assms by simp_all
    then show ?thesis
      by (simp add: domIff)
  qed
qed

lemma QmdlManifest_from_dict_ok:
  assumes "dom d = {''entries'', ''current_entry''}"
    and "d ''entries'' = Some v" "comprehension v = Inr es"
    and "d ''current_entry'' = Some c" "c \<noteq> MNone" "entry_of c = Inr a"
  shows "QmdlManifest_from_dict d =
    (d(''entries'' \<mapsto> MList (map MEntry es), ''current_entry'' \<mapsto> MEntry a),
     Inr \<lparr>entries = MList (map MEntry es), current_entry = MEntry a\<rparr>)"
proof -
  have "dom (d(''entries'' \<mapsto> MList (map MEntry es), ''current_entry'' \<mapsto> MEntry a))
        = {''entries'', ''current_entry''}"
    using assms(1) by auto
  then show ?thesis
    using assms(2-) by (simp add: QmdlManifest_from_dict_def getitem_def QmdlManifest_init_def Let_def)
qed

lemma QmdlManifest_from_dict_none:
  assumes "dom d = {''entries'', ''current_entry''}"
    and "d ''entries'' = Some v" "comprehension v = Inr es"
    and "d ''current_entry'' = Some MNone"
  shows "QmdlManifest_from_dict d =
    (d(''entries'' \<mapsto> MList (map MEntry es)),
     Inr \<lparr>entries = MList (map MEntry es), current_entry = MNone\<rparr>)"
proof -
  have "dom (d(''entries'' \<mapsto> MList (map MEntry es))) = {''entries'', ''current_entry''}"
    using assms(1) by auto
  then show ?thesis
    using assms(2-) by (simp add: QmdlManifest_from_dict_def getitem_def QmdlManifest_init_def Let_def)
qed

lemma QmdlManifest_from_dict_partial:
  assumes "d ''entries'' = Some v" "comprehension v = Inr es"
    and "d ''current_entry'' = Some c" "c \<noteq> MNone" "entry_of c = Inl e"
  shows "QmdlManifest_from_dict d = (d(''entries'' \<mapsto> MList (map MEntry es)), Inl e)"
  using assms by (simp add: QmdlManifest_from_dict_def getitem_def Let_def)

lemma QmdlManifest_from_dict_well_formed:
  assumes "dom d = {''entries'', ''current_entry''}"
    and "d ''entries'' = Some (MList (map MDict es))" "\<forall>x \<in> set es. dom x = entry_keys"
    and "d ''current_entry'' = Some (MDict c)" "dom c = entry_keys"
  shows "snd (QmdlManifest_from_dict d) =
     Inr \<lparr>entries = MList (map MEntry (map entry_fields es)),
          current_entry = MEntry (entry_fields c)\<rparr>"
proof -
  have "comprehension (MList (map MDict es)) = Inr (map entry_fields es)"
    using assms(3) by (simp add: comprehension_def entries_of_ok)
  moreover have "entry_of (MDict c) = Inr (entry_fields c)"
    using assms(5) by (rule entry_of_ok)
  ultimately show ?thesis
    using QmdlManifest_from_dict_ok [OF assms(1,2) _ assms(4)] by simp
qed

lemma active_recording_ok:
  assumes "tr w \<lparr>http_method = GET, target = Urljoin (url self) ''/api/qmdl-manifest'',
                   stream = False\<rparr> = Inr r"
    and "\<not> (400 \<le> status_code r \<and> status_code r < 600)"
    and "json r = Inr d" "snd (QmdlManifest_from_dict d) = Inr m"
  shows "snd (active_recording self tr w) = Inr (current_entry m \<noteq> MNone)"
  using assms
  by (simp add: active_recording_def get_manifest_def send_def raise_for_status_def)

text \<open>
  Claim C5. \<^verbatim>\<open>from_dict\<close> of the mapping with no entries and \<^verbatim>\<open>current_entry\<close> None
  gives the manifest with an empty entry list and no current entry, and
  \<^verbatim>\<open>active_recording\<close> computed from it is false. On a manifest mapping (its entries
  entry mappings) whose \<^verbatim>\<open>current_entry\<close> is a mapping with exactly the field names of
  \<^verbatim>\<open>QmdlManifestEntry\<close>, it gives a manifest whose current entry is an entry object, no
  None, with the values of the mapping as its fields, and \<^verbatim>\<open>active_recording\<close> is true.
\<close>

theorem QmdlManifest_from_dict_examples:
  "QmdlManifest_from_dict [''entries'' \<mapsto> MList [], ''current_entry'' \<mapsto> MNone]
     = ([''entries'' \<mapsto> MList [], ''current_entry'' \<mapsto> MNone],
        Inr \<lparr>entries = MList [], current_entry = MNone\<rparr>)
   \<and> (\<forall>self tr w r.
         tr w \<lparr>http_method = GET, target = Urljoin (url self) ''/api/qmdl-manifest'',
               stream = False\<rparr> = Inr r
         \<and> \<not> (400 \<le> status_code r \<and> status_code r < 600)
         \<and> json r = Inr [''entries'' \<mapsto> MList [], ''current_entry'' \<mapsto> MNone]
         \<longrightarrow> snd (active_recording self tr w) = Inr False)
   \<and> (\<forall>d es c.
         dom d = {''entries'', ''current_entry''}
         \<and> d ''entries'' = Some (MList (map MDict es)) \<and> (\<forall>x \<in> set es. dom x = entry_keys)
         \<and> d ''current_entry'' = Some (MDict c) \<and> dom c = entry_keys
         \<longrightarrow> (\<exists>e. snd (QmdlManifest_from_dict d)
                    = Inr \<lparr>entries = MList (map MEntry (map entry_fields es)),
                           current_entry = MEntry e\<rparr>
                  \<and> MEntry e \<noteq> MNone
                  \<and> c ''name'' = Some (name e) \<and> c ''start_time'' = Some (start_time e)
                  \<and> c ''last_message_time'' = Some (last_message_time e)
                  \<and> c ''qmdl_size_bytes'' = Some (qmdl_size_bytes e)
                  \<and> c ''analysis_size_bytes'' = Some (analysis_size_bytes e))
             \<and> (\<forall>self tr w r.
                   tr w \<lparr>http_method = GET, target = Urljoin (url self) ''/api/qmdl-manifest'',
                         stream = False\<rparr> = Inr r
                   \<and> \<not> (400 \<le> status_code r \<and> status_code r < 600) \<and> json r = Inr d
                   \<longrightarrow> snd (active_recording self tr w) = Inr True))"
proof (intro conjI allI impI)
  let ?d = "[''entries'' \<mapsto> MList [], ''current_entry'' \<mapsto> MNone]"
  have d1: "dom ?d = {''entries'', ''current_entry''}"
    by auto
  have d2: "?d ''entries'' = Some (MList [])" and d3: "?d ''current_entry'' = Some MNone"
    by simp_all
  have d4: "comprehension (MList []) = Inr []"
    by (simp add: comprehension_def)
  have "QmdlManifest_from_dict ?d
        = (?d(''entries'' \<mapsto> MList (map MEntry [])),
           Inr \<lparr>entries = MList (map MEntry []), current_entry = MNone\<rparr>)"
    using d1 d2 d4 d3 by (rule QmdlManifest_from_dict_none)
  moreover have "?d(''entries'' \<mapsto> MList (map MEntry [])) = ?d"
    by (simp add: fun_upd_twist)
  ultimately show e: "QmdlManifest_from_dict ?d
        = (?d, Inr \<lparr>entries = MList [], current_entry = MNone\<rparr>)"
    by simp
  fix self :: RayhunterApi and tr :: "(string \<rightharpoonup> mval) transport" and w r
  assume "tr w \<lparr>http_method = GET, target = Urljoin (url self) ''/api/qmdl-manifest'',
               stream = False\<rparr> = Inr r
         \<and> \<not> (400 \<le> status_code r \<and> status_code r < 600)
         \<and> json r = Inr ?d"
  then show "snd (active_recording self tr w) = Inr False"
    using e active_recording_ok [of tr w self r ?d "\<lparr>entries = MList [], current_entry = MNone\<rparr>"]
    by simp
next
  fix d es c
  assume a: "dom d = {''entries'', ''current_entry''}
         \<and> d ''entries'' = Some (MList (map MDict es)) \<and> (\<forall>x \<in> set es. dom x = entry_keys)
         \<and> d ''current_entry'' = Some (MDict c) \<and> dom c = entry_keys"
  then have m: "snd (QmdlManifest_from_dict d)
       = Inr \<lparr>entries = MList (map MEntry (map entry_fields es)),
              current_entry = MEntry (entry_fields c)\<rparr>"
    by (intro QmdlManifest_from_dict_well_formed) simp_all
  have k: "\<And>k. k \<in> entry_keys \<Longrightarrow> c k = Some (the (c k))"
    using a by (metis domIff option.collapse)
  show "\<exists>e. snd (QmdlManifest_from_dict d)
                    = Inr \<lparr>entries = MList (map MEntry (map entry_fields es)),
                           current_entry = MEntry e\<rparr>
                  \<and> MEntry e \<noteq> MNone
                  \<and> c ''name'' = Some (name e) \<and> c ''start_time'' = Some (start_time e)
                  \<and> c ''last_message_time'' = Some (last_message_time e)
                  \<and> c ''qmdl_size_bytes'' = Some (qmdl_size_bytes e)
                  \<and> c ''analysis_size_bytes'' = Some (analysis_size_bytes e)"
    using m k by (intro exI [of _ "entry_fields c"]) (simp add: entry_fields_def entry_keys_def)
  fix self :: RayhunterApi and tr :: "(string \<rightharpoonup> mval) transport" and w r
  assume "tr w \<lparr>http_method = GET, target = Urljoin (url self) ''/api/qmdl-manifest'',
                         stream = False\<rparr> = Inr r
                   \<and> \<not> (400 \<le> status_code r \<and> status_code r < 600) \<and> json r = Inr d"
  then show "snd (active_recording self tr w) = Inr True"
    using m active_recording_ok [of tr w self r d
        "\<lparr>entries = MList (map MEntry (map entry_fields es)),
              current_entry = MEntry (entry_fields c)\<rparr>"]
    by simp
qed

theorem QmdlManifest_from_dict_examples_witness:
  "snd (QmdlManifest_from_dict
     [''entries'' \<mapsto> MList (map MDict []),
      ''current_entry'' \<mapsto> MDict [''name'' \<mapsto> VStr ''1700000000'', ''start_time'' \<mapsto> VStr ''t0'',
         ''last_message_time'' \<mapsto> VStr ''t1'', ''qmdl_size_bytes'' \<mapsto> VInt 4096,
         ''analysis_size_bytes'' \<mapsto> VInt 128]])
   = Inr \<lparr>entries = MList [],
          current_entry = MEntry \<lparr>name = VStr ''1700000000'', start_time = VStr ''t0'',
            last_message_time = VStr ''t1'', qmdl_size_bytes = VInt 4096,
            analysis_size_bytes = VInt 128\<rparr>\<rparr>
   \<and> snd (active_recording \<lparr>url = ''http://192.168.1.1:8080/''\<rparr>
        (answer \<lparr>status_code = 200, iter_content = Inr [],
           json = Inr [''entries'' \<mapsto> MList (map MDict []),
      ''current_entry'' \<mapsto> MDict [''name'' \<mapsto> VStr ''1700000000'', ''start_time'' \<mapsto> VStr ''t0'',
         ''last_message_time'' \<mapsto> VStr ''t1'', ''qmdl_size_bytes'' \<mapsto> VInt 4096,
         ''analysis_size_bytes'' \<mapsto> VInt 128]]\<rparr>) [])
     = Inr True
   \<and> snd (active_recording \<lparr>url = ''http://192.168.1.1:8080/''\<rparr>
        (answer \<lparr>status_code = 200, iter_content = Inr [],
           json = Inr [''entries'' \<mapsto> MList [], ''current_entry'' \<mapsto> MNone]\<rparr>) [])
     = Inr False"
proof -
  let ?c = "[''name'' \<mapsto> VStr ''1700000000'', ''start_time'' \<mapsto> VStr ''t0'',
         ''last_message_time'' \<mapsto> VStr ''t1'', ''qmdl_size_bytes'' \<mapsto> VInt 4096,
         ''analysis_size_bytes'' \<mapsto> VInt 128]"
  let ?d = "[''entries'' \<mapsto> MList (map MDict []), ''current_entry'' \<mapsto> MDict ?c]"
  let ?r = "\<lparr>status_code = 200, iter_content = Inr [], json = Inr ?d\<rparr>"
  let ?z = "\<lparr>status_code = 200, iter_content = Inr [],
           json = Inr [''entries'' \<mapsto> MList [], ''current_entry'' \<mapsto> MNone]\<rparr>"
  let ?self = "\<lparr>url = ''http://192.168.1.1:8080/''\<rparr>"
  have h: "dom ?d = {''entries'', ''current_entry''}
         \<and> ?d ''entries'' = Some (MList (map MDict [])) \<and> (\<forall>x \<in> set []. dom x = entry_keys)
         \<and> ?d ''current_entry'' = Some (MDict ?c) \<and> dom ?c = entry_keys"
    by (auto simp: entry_keys_def)
  note t = QmdlManifest_from_dict_examples [THEN conjunct2, THEN conjunct2, rule_format,
      of ?d "[]" ?c, OF h]
  from t [THEN conjunct1] obtain e where
    m: "snd (QmdlManifest_from_dict ?d)
        = Inr \<lparr>entries = MList (map MEntry (map entry_fields [])), current_entry = MEntry e\<rparr>"
    and f: "?c ''name'' = Some (name e)" "?c ''start_time'' = Some (start_time e)"
      "?c ''last_message_time'' = Some (last_message_time e)"
      "?c ''qmdl_size_bytes'' = Some (qmdl_size_bytes e)"
      "?c ''analysis_size_bytes'' = Some (analysis_size_bytes e)"
    by blast
  have "e = \<lparr>name = VStr ''1700000000'', start_time = VStr ''t0'',
            last_message_time = VStr ''t1'', qmdl_size_bytes = VInt 4096,
            analysis_size_bytes = VInt 128\<rparr>"
    using f by (cases e) simp
  then have 1: "snd (QmdlManifest_from_dict ?d)
   = Inr \<lparr>entries = MList [],
          current_entry = MEntry \<lparr>name = VStr ''1700000000'', start_time = VStr ''t0'',
            last_message_time = VStr ''t1'', qmdl_size_bytes = VInt 4096,
            analysis_size_bytes = VInt 128\<rparr>\<rparr>"
    using m by simp
  have "answer ?r [] \<lparr>http_method = GET, target = Urljoin (url ?self) ''/api/qmdl-manifest'',
            stream = False\<rparr> = Inr ?r
        \<and> \<not> (400 \<le> status_code ?r \<and> status_code ?r < 600) \<and> json ?r = Inr ?d"
    by (simp add: answer_def)
  from t [THEN conjunct2, rule_format, of "answer ?r" "[]" ?self ?r, OF this] have
    2: "snd (active_recording ?self (answer ?r) []) = Inr True" .
  have "answer ?z [] \<lparr>http_method = GET, target = Urljoin (url ?self) ''/api/qmdl-manifest'',
            stream = False\<rparr> = Inr ?z
        \<and> \<not> (400 \<le> status_code ?z \<and> status_code ?z < 600)
        \<and> json ?z = Inr [''entries'' \<mapsto> MList [], ''current_entry'' \<mapsto> MNone]"
    by (simp add: answer_def)
  from QmdlManifest_from_dict_examples [THEN conjunct2, THEN conjunct1, rule_format,
      of "answer ?z" "[]" ?self ?z, OF this] have
    3: "snd (active_recording ?self (answer ?z) []) = Inr False" .
  from 1 2 3 show ?thesis
    by (intro conjI)
qed

text \<open>
  Claim C6, as amended. \<^verbatim>\<open>from_dict\<close> takes the entries and the current entry as the
  mapping has them and removes no duplicate: on a well-formed manifest mapping the current
  entry of the result is among its entries exactly when the \<^verbatim>\<open>current_entry\<close> mapping of
  the input is among the entry mappings of the input.
\<close>

theorem QmdlManifest_from_dict_keeps_duplicates:
  assumes "dom d = {''entries'', ''current_entry''}"
    and "d ''entries'' = Some (MList (map MDict es))" "\<forall>x \<in> set es. dom x = entry_keys"
    and "d ''current_entry'' = Some (MDict c)" "dom c = entry_keys"
  shows "snd (QmdlManifest_from_dict d)
         = Inr \<lparr>entries = MList (map MEntry (map entry_fields es)),
                current_entry = MEntry (entry_fields c)\<rparr>
       \<and> (MEntry (entry_fields c) \<in> set (map MEntry (map entry_fields es)) \<longleftrightarrow> c \<in> set es)"
proof -
  have "MEntry (entry_fields c) \<in> set (map MEntry (map entry_fields es)) \<longleftrightarrow> c \<in> set es"
  proof
    assume "MEntry (entry_fields c) \<in> set (map MEntry (map entry_fields es))"
    then obtain x where x: "x \<in> set es" "entry_fields x = entry_fields c"
      by auto
    then have "x = c"
      using assms(3,5) by (intro entry_fields_inj) simp_all
    then show "c \<in> set es"
      using x(1) by simp
  next
    assume "c \<in> set es"
    then show "MEntry (entry_fields c) \<in> set (map MEntry (map entry_fields es))"
      by simp
  qed
  then show ?thesis
    using QmdlManifest_from_dict_well_formed [OF assms] by simp
qed

theorem QmdlManifest_from_dict_keeps_duplicates_witness:
  "snd (QmdlManifest_from_dict
     [''entries'' \<mapsto> MList (map MDict [[''name'' \<mapsto> VStr ''1699990000'', ''start_time'' \<mapsto> VStr ''s0'',
         ''last_message_time'' \<mapsto> VStr ''s1'', ''qmdl_size_bytes'' \<mapsto> VInt 512,
         ''analysis_size_bytes'' \<mapsto> VInt 64]]),
      ''current_entry'' \<mapsto> MDict [''name'' \<mapsto> VStr ''1700000000'', ''start_time'' \<mapsto> VStr ''t0'',
         ''last_message_time'' \<mapsto> VStr ''t1'', ''qmdl_size_bytes'' \<mapsto> VInt 4096,
         ''analysis_size_bytes'' \<mapsto> VInt 128]])
   = Inr \<lparr>entries = MList [MEntry \<lparr>name = VStr ''1699990000'', start_time = VStr ''s0'',
            last_message_time = VStr ''s1'', qmdl_size_bytes = VInt 512,
            analysis_size_bytes = VInt 64\<rparr>],
          current_entry = MEntry \<lparr>name = VStr ''1700000000'', start_time = VStr ''t0'',
            last_message_time = VStr ''t1'', qmdl_size_bytes = VInt 4096,
            analysis_size_bytes = VInt 128\<rparr>\<rparr>"
proof -
  let ?x = "[''name'' \<mapsto> VStr ''1699990000'', ''start_time'' \<mapsto> VStr ''s0'',
         ''last_message_time'' \<mapsto> VStr ''s1'', ''qmdl_size_bytes'' \<mapsto> VInt 512,
         ''analysis_size_bytes'' \<mapsto> VInt 64]"
  let ?c = "[''name'' \<mapsto> VStr ''1700000000'', ''start_time'' \<mapsto> VStr ''t0'',
         ''last_message_time'' \<mapsto> VStr ''t1'', ''qmdl_size_bytes'' \<mapsto> VInt 4096,
         ''analysis_size_bytes'' \<mapsto> VInt 128]"
  let ?d = "[''entries'' \<mapsto> MList (map MDict [?x]), ''current_entry'' \<mapsto> MDict ?c]"
  have 1: "dom ?d = {''entries'', ''current_entry''}"
    by auto
  have 2: "?d ''entries'' = Some (MList (map MDict [?x]))"
    by simp
  have 3: "\<forall>x \<in> set [?x]. dom x = entry_keys"
    by (auto simp: entry_keys_def)
  have 4: "?d ''current_entry'' = Some (MDict ?c)"
    by simp
  have 5: "dom ?c = entry_keys"
    by (auto simp: entry_keys_def)
  from QmdlManifest_from_dict_keeps_duplicates [of ?d "[?x]" ?c, OF 1 2 3 4 5, THEN conjunct1]
  show ?thesis
    by (simp add: entry_fields_def)
qed

theorem QmdlManifest_from_dict_duplicate:
  "snd (QmdlManifest_from_dict
     [''entries'' \<mapsto> MList [MDict [''name'' \<mapsto> VStr ''1700000000'', ''start_time'' \<mapsto> VStr ''t0'',
         ''last_message_time'' \<mapsto> VStr ''t1'', ''qmdl_size_bytes'' \<mapsto> VInt 4096,
         ''analysis_size_bytes'' \<mapsto> VInt 128]],
      ''current_entry'' \<mapsto> MDict [''name'' \<mapsto> VStr ''1700000000'', ''start_time'' \<mapsto> VStr ''t0'',
         ''last_message_time'' \<mapsto> VStr ''t1'', ''qmdl_size_bytes'' \<mapsto> VInt 4096,
         ''analysis_size_bytes'' \<mapsto> VInt 128]])
   = Inr \<lparr>entries = MList [MEntry \<lparr>name = VStr ''1700000000'', start_time = VStr ''t0'',
            last_message_time = VStr ''t1'', qmdl_size_bytes = VInt 4096,
            analysis_size_bytes = VInt 128\<rparr>],
          current_entry = MEntry \<lparr>name = VStr ''1700000000'', start_time = VStr ''t0'',
            last_message_time = VStr ''t1'', qmdl_size_bytes = VInt 4096,
            analysis_size_bytes = VInt 128\<rparr>\<rparr>"
proof -
  let ?c = "[''name'' \<mapsto> VStr ''1700000000'', ''start_time'' \<mapsto> VStr ''t0'',
         ''last_message_time'' \<mapsto> VStr ''t1'', ''qmdl_size_bytes'' \<mapsto> VInt 4096,
         ''analysis_size_bytes'' \<mapsto> VInt 128]"
  let ?d = "[''entries'' \<mapsto> MList (map MDict [?c]), ''current_entry'' \<mapsto> MDict ?c]"
  have "dom ?d = {''entries'', ''current_entry''}"
    by auto
  moreover have "?d ''entries'' = Some (MList (map MDict [?c]))"
    by simp
  moreover have k: "dom ?c = entry_keys"
    by (auto simp: entry_keys_def)
  then have "\<forall>x \<in> set [?c]. dom x = entry_keys"
    by simp
  moreover have "?d ''current_entry'' = Some (MDict ?c)"
    by simp
  ultimately have "snd (QmdlManifest_from_dict ?d) =
     Inr \<lparr>entries = MList (map MEntry (map entry_fields [?c])),
          current_entry = MEntry (entry_fields ?c)\<rparr>"
    using k by (rule QmdlManifest_from_dict_well_formed)
  then show ?thesis
    by (simp add: entry_fields_def)
qed

section \<open>The mapping after \<^verbatim>\<open>from_dict\<close>\<close>

text \<open>
  Claim C9. Each \<^verbatim>\<open>from_dict\<close> writes the converted values into the mapping it is
  given: after a successful call the caller's mapping holds the integers (the entry
  objects, for the manifest) in place of the strings (the entry mappings), and when the
  conversion of a later field fails the fields converted before it stay overwritten.
\<close>

theorem from_dict_mutates_input:
  "(\<forall>d pv mv ts us av ps a b c p.
      dom d = {''partition'', ''total_size'', ''used_size'', ''available_size'',
               ''used_percent'', ''mounted_on''}
      \<and> d ''partition'' = Some pv \<and> d ''mounted_on'' = Some mv
      \<and> d ''total_size'' = Some (VStr ts) \<and> d ''used_size'' = Some (VStr us)
      \<and> d ''available_size'' = Some (VStr av) \<and> d ''used_percent'' = Some (VStr ps)
      \<and> size_str_to_int (VStr ts) = Inr a \<and> size_str_to_int (VStr us) = Inr b
      \<and> size_str_to_int (VStr av) = Inr c \<and> percent_str_to_int (VStr ps) = Inr p
      \<longrightarrow> fst (DiskStats_from_dict d)
          = d(''total_size'' \<mapsto> VInt a, ''used_size'' \<mapsto> VInt b, ''available_size'' \<mapsto> VInt c,
              ''used_percent'' \<mapsto> VInt p))
   \<and> (\<forall>d ts us a e.
        d ''total_size'' = Some (VStr ts) \<and> d ''used_size'' = Some (VStr us)
        \<and> size_str_to_int (VStr ts) = Inr a \<and> size_str_to_int (VStr us) = Inl e
        \<longrightarrow> DiskStats_from_dict d = (d(''total_size'' \<mapsto> VInt a), Inl e))
   \<and> (\<forall>d ts us fs a b c.
        dom d = {''total'', ''used'', ''free''}
        \<and> d ''total'' = Some (VStr ts) \<and> d ''used'' = Some (VStr us) \<and> d ''free'' = Some (VStr fs)
        \<and> size_str_to_int (VStr ts) = Inr a \<and> size_str_to_int (VStr us) = Inr b
        \<and> size_str_to_int (VStr fs) = Inr c
        \<longrightarrow> fst (MemoryStats_from_dict d)
            = d(''total'' \<mapsto> VInt a, ''used'' \<mapsto> VInt b, ''free'' \<mapsto> VInt c))
   \<and> (\<forall>d ts us a e.
        d ''total'' = Some (VStr ts) \<and> d ''used'' = Some (VStr us)
        \<and> size_str_to_int (VStr ts) = Inr a \<and> size_str_to_int (VStr us) = Inl e
        \<longrightarrow> MemoryStats_from_dict d = (d(''total'' \<mapsto> VInt a), Inl e))
   \<and> (\<forall>d v es c a.
        dom d = {''entries'', ''current_entry''}
        \<and> d ''entries'' = Some v \<and> comprehension v = Inr es
        \<and> d ''current_entry'' = Some c \<and> c \<noteq> MNone \<and> entry_of c = Inr a
        \<longrightarrow> fst (QmdlManifest_from_dict d)
            = d(''entries'' \<mapsto> MList (map MEntry es), ''current_entry'' \<mapsto> MEntry a))
   \<and> (\<forall>d v es c e.
        d ''entries'' = Some v \<and> comprehension v = Inr es
        \<and> d ''current_entry'' = Some c \<and> c \<noteq> MNone \<and> entry_of c = Inl e
        \<longrightarrow> QmdlManifest_from_dict d = (d(''entries'' \<mapsto> MList (map MEntry es)), Inl e))"
proof (intro conjI allI impI)
  fix d pv mv ts us av ps a b c p
  assume "dom d = {''partition'', ''total_size'', ''used_size'', ''available_size'',
               ''used_percent'', ''mounted_on''}
      \<and> d ''partition'' = Some pv \<and> d ''mounted_on'' = Some mv
      \<and> d ''total_size'' = Some (VStr ts) \<and> d ''used_size'' = Some (VStr us)
      \<and> d ''available_size'' = Some (VStr av) \<and> d ''used_percent'' = Some (VStr ps)
      \<and> size_str_to_int (VStr ts) = Inr a \<and> size_str_to_int (VStr us) = Inr b
      \<and> size_str_to_int (VStr av) = Inr c \<and> percent_str_to_int (VStr ps) = Inr p"
  then show "fst (DiskStats_from_dict d)
          = d(''total_size'' \<mapsto> VInt a, ''used_size'' \<mapsto> VInt b, ''available_size'' \<mapsto> VInt c,
              ''used_percent'' \<mapsto> VInt p)"
    using DiskStats_from_dict_ok [of d pv mv "VStr ts" "VStr us" "VStr av" "VStr ps" a b c p]
    by simp
next
  fix d ts us a e
  assume "d ''total_size'' = Some (VStr ts) \<and> d ''used_size'' = Some (VStr us)
        \<and> size_str_to_int (VStr ts) = Inr a \<and> size_str_to_int (VStr us) = Inl e"
  then show "DiskStats_from_dict d = (d(''total_size'' \<mapsto> VInt a), Inl e)"
    using DiskStats_from_dict_partial [of d "VStr ts" "VStr us" a e] by simp
next
  fix d ts us fs a b c
  assume "dom d = {''total'', ''used'', ''free''}
        \<and> d ''total'' = Some (VStr ts) \<and> d ''used'' = Some (VStr us) \<and> d ''free'' = Some (VStr fs)
        \<and> size_str_to_int (VStr ts) = Inr a \<and> size_str_to_int (VStr us) = Inr b
        \<and> size_str_to_int (VStr fs) = Inr c"
  then show "fst (MemoryStats_from_dict d)
            = d(''total'' \<mapsto> VInt a, ''used'' \<mapsto> VInt b, ''free'' \<mapsto> VInt c)"
    using MemoryStats_from_dict_ok [of d "VStr ts" "VStr us" "VStr fs" a b c] by simp
next
  fix d ts us a e
  assume "d ''total'' = Some (VStr ts) \<and> d ''used'' = Some (VStr us)
        \<and> size_str_to_int (VStr ts) = Inr a \<and> size_str_to_int (VStr us) = Inl e"
  then show "MemoryStats_from_dict d = (d(''total'' \<mapsto> VInt a), Inl e)"
    using MemoryStats_from_dict_partial [of d "VStr ts" "VStr us" a e] by simp
next
  fix d v es c a
  assume "dom d = {''entries'', ''current_entry''}
        \<and> d ''entries'' = Some v \<and> comprehension v = Inr es
        \<and> d ''current_entry'' = Some c \<and> c \<noteq> MNone \<and> entry_of c = Inr a"
  then show "fst (QmdlManifest_from_dict d)
            = d(''entries'' \<mapsto> MList (map MEntry es), ''current_entry'' \<mapsto> MEntry a)"
    using QmdlManifest_from_dict_ok [of d v es c a] by simp
next
  fix d v es c e
  assume "d ''entries'' = Some v \<and> comprehension v = Inr es
        \<and> d ''current_entry'' = Some c \<and> c \<noteq> MNone \<and> entry_of c = Inl e"
  then show "QmdlManifest_from_dict d = (d(''entries'' \<mapsto> MList (map MEntry es)), Inl e)"
    using QmdlManifest_from_dict_partial [of d v es c e] by simp
qed

theorem from_dict_mutates_input_witness:
  "DiskStats_from_dict
     [''partition'' \<mapsto> VStr ''ubi0:usrfs'', ''total_size'' \<mapsto> VStr ''2M'',
      ''used_size'' \<mapsto> VStr ''512K'', ''available_size'' \<mapsto> VStr ''1.5M'',
      ''used_percent'' \<mapsto> VStr ''25%'', ''mounted_on'' \<mapsto> VStr ''/data'']
   = ([''partition'' \<mapsto> VStr ''ubi0:usrfs'', ''total_size'' \<mapsto> VStr ''2M'',
       ''used_size'' \<mapsto> VStr ''512K'', ''available_size'' \<mapsto> VStr ''1.5M'',
       ''used_percent'' \<mapsto> VStr ''25%'', ''mounted_on'' \<mapsto> VStr ''/data'',
       ''total_size'' \<mapsto> VInt 2097152],
      Inl (ValueError (Text ''Unsupported size suffix: K (512K)'')))
   \<and> MemoryStats_from_dict
     [''total'' \<mapsto> VStr ''2M'', ''used'' \<mapsto> VStr ''512K'', ''free'' \<mapsto> VStr ''1.5M'']
   = ([''total'' \<mapsto> VStr ''2M'', ''used'' \<mapsto> VStr ''512K'', ''free'' \<mapsto> VStr ''1.5M'',
       ''total'' \<mapsto> VInt 2097152],
      Inl (ValueError (Text ''Unsupported size suffix: K (512K)'')))
   \<and> fst (MemoryStats_from_dict
     [''total'' \<mapsto> VStr ''2M'', ''used'' \<mapsto> VStr ''0.5M'', ''free'' \<mapsto> VStr ''1.5M''])
   = [''total'' \<mapsto> VStr ''2M'', ''used'' \<mapsto> VStr ''0.5M'', ''free'' \<mapsto> VStr ''1.5M'',
      ''total'' \<mapsto> VInt 2097152, ''used'' \<mapsto> VInt 524288, ''free'' \<mapsto> VInt 1572864]
   \<and> QmdlManifest_from_dict
     [''entries'' \<mapsto> MList [], ''current_entry'' \<mapsto> MDict [''name'' \<mapsto> VStr ''1700000000'']]
   = ([''entries'' \<mapsto> MList [], ''current_entry'' \<mapsto> MDict [''name'' \<mapsto> VStr ''1700000000''],
       ''entries'' \<mapsto> MList (map MEntry [])],
      Inl TypeError)
   \<and> fst (DiskStats_from_dict
     [''partition'' \<mapsto> VStr ''ubi0:usrfs'', ''total_size'' \<mapsto> VStr ''2M'',
      ''used_size'' \<mapsto> VStr ''0.5M'', ''available_size'' \<mapsto> VStr ''1.5M'',
      ''used_percent'' \<mapsto> VStr ''25%'', ''mounted_on'' \<mapsto> VStr ''/data''])
   = [''partition'' \<mapsto> VStr ''ubi0:usrfs'', ''total_size'' \<mapsto> VStr ''2M'',
      ''used_size'' \<mapsto> VStr ''0.5M'', ''available_size'' \<mapsto> VStr ''1.5M'',
      ''used_percent'' \<mapsto> VStr ''25%'', ''mounted_on'' \<mapsto> VStr ''/data'',
      ''total_size'' \<mapsto> VInt 2097152, ''used_size'' \<mapsto> VInt 524288,
      ''available_size'' \<mapsto> VInt 1572864, ''used_percent'' \<mapsto> VInt 25]
   \<and> fst (QmdlManifest_from_dict
     [''entries'' \<mapsto> MList [],
      ''current_entry'' \<mapsto> MDict [''name'' \<mapsto> VStr ''1700000000'', ''start_time'' \<mapsto> VStr ''t0'',
         ''last_message_time'' \<mapsto> VStr ''t1'', ''qmdl_size_bytes'' \<mapsto> VInt 4096,
         ''analysis_size_bytes'' \<mapsto> VInt 128]])
   = [''entries'' \<mapsto> MList [],
      ''current_entry'' \<mapsto> MDict [''name'' \<mapsto> VStr ''1700000000'', ''start_time'' \<mapsto> VStr ''t0'',
         ''last_message_time'' \<mapsto> VStr ''t1'', ''qmdl_size_bytes'' \<mapsto> VInt 4096,
         ''analysis_size_bytes'' \<mapsto> VInt 128],
      ''entries'' \<mapsto> MList (map MEntry []),
      ''current_entry'' \<mapsto> MEntry \<lparr>name = VStr ''1700000000'', start_time = VStr ''t0'',
            last_message_time = VStr ''t1'', qmdl_size_bytes = VInt 4096,
            analysis_size_bytes = VInt 128\<rparr>]"
proof -
  let ?g = "[''partition'' \<mapsto> VStr ''ubi0:usrfs'', ''total_size'' \<mapsto> VStr ''2M'',
      ''used_size'' \<mapsto> VStr ''0.5M'', ''available_size'' \<mapsto> VStr ''1.5M'',
      ''used_percent'' \<mapsto> VStr ''25%'', ''mounted_on'' \<mapsto> VStr ''/data'']"
  let ?c = "[''name'' \<mapsto> VStr ''1700000000'', ''start_time'' \<mapsto> VStr ''t0'',
         ''last_message_time'' \<mapsto> VStr ''t1'', ''qmdl_size_bytes'' \<mapsto> VInt 4096,
         ''analysis_size_bytes'' \<mapsto> VInt 128]"
  let ?w = "[''entries'' \<mapsto> MList [], ''current_entry'' \<mapsto> MDict ?c]"
  let ?a = "\<lparr>name = VStr ''1700000000'', start_time = VStr ''t0'',
            last_message_time = VStr ''t1'', qmdl_size_bytes = VInt 4096,
            analysis_size_bytes = VInt 128\<rparr>"
  let ?d = "[''partition'' \<mapsto> VStr ''ubi0:usrfs'', ''total_size'' \<mapsto> VStr ''2M'',
      ''used_size'' \<mapsto> VStr ''512K'', ''available_size'' \<mapsto> VStr ''1.5M'',
      ''used_percent'' \<mapsto> VStr ''25%'', ''mounted_on'' \<mapsto> VStr ''/data'']"
  let ?m = "[''total'' \<mapsto> VStr ''2M'', ''used'' \<mapsto> VStr ''512K'', ''free'' \<mapsto> VStr ''1.5M'']"
  let ?n = "[''total'' \<mapsto> VStr ''2M'', ''used'' \<mapsto> VStr ''0.5M'', ''free'' \<mapsto> VStr ''1.5M'']"
  let ?q = "[''entries'' \<mapsto> MList [], ''current_entry'' \<mapsto> MDict [''name'' \<mapsto> VStr ''1700000000'']]"
  let ?e = "ValueError (Text ''Unsupported size suffix: K (512K)'')"
  have s: "size_str_to_int (VStr ''2M'') = Inr 2097152"
    "size_str_to_int (VStr ''0.5M'') = Inr 524288"
    "size_str_to_int (VStr ''1.5M'') = Inr 1572864"
    "size_str_to_int (VStr ''512K'') = Inl ?e"
    by code_simp+
  note t = from_dict_mutates_input
  have "?d ''total_size'' = Some (VStr ''2M'') \<and> ?d ''used_size'' = Some (VStr ''512K'')
        \<and> size_str_to_int (VStr ''2M'') = Inr 2097152 \<and> size_str_to_int (VStr ''512K'') = Inl ?e"
    using s by simp
  from t [THEN conjunct2, THEN conjunct1, rule_format, of ?d "''2M''" "''512K''" 2097152 ?e,
      OF this]
  have 1: "DiskStats_from_dict ?d = (?d(''total_size'' \<mapsto> VInt 2097152), Inl ?e)" .
  have "?m ''total'' = Some (VStr ''2M'') \<and> ?m ''used'' = Some (VStr ''512K'')
        \<and> size_str_to_int (VStr ''2M'') = Inr 2097152 \<and> size_str_to_int (VStr ''512K'') = Inl ?e"
    using s by simp
  from t [THEN conjunct2, THEN conjunct2, THEN conjunct2, THEN conjunct1, rule_format,
      of ?m "''2M''" "''512K''" 2097152 ?e, OF this]
  have 2: "MemoryStats_from_dict ?m = (?m(''total'' \<mapsto> VInt 2097152), Inl ?e)" .
  have k: "dom ?n = {''total'', ''used'', ''free''}"
    by auto
  have "dom ?n = {''total'', ''used'', ''free''}
        \<and> ?n ''total'' = Some (VStr ''2M'') \<and> ?n ''used'' = Some (VStr ''0.5M'')
        \<and> ?n ''free'' = Some (VStr ''1.5M'')
        \<and> size_str_to_int (VStr ''2M'') = Inr 2097152 \<and> size_str_to_int (VStr ''0.5M'') = Inr 524288
        \<and> size_str_to_int (VStr ''1.5M'') = Inr 1572864"
    using k s by simp
  from t [THEN conjunct2, THEN conjunct2, THEN conjunct1, rule_format,
      of ?n "''2M''" "''0.5M''" "''1.5M''" 2097152 524288 1572864, OF this]
  have 3: "fst (MemoryStats_from_dict ?n)
           = ?n(''total'' \<mapsto> VInt 2097152, ''used'' \<mapsto> VInt 524288, ''free'' \<mapsto> VInt 1572864)" .
  have "dom [''name'' \<mapsto> VStr ''1700000000''] \<noteq> entry_keys"
    by (auto simp: entry_keys_def)
  then have "entry_of (MDict [''name'' \<mapsto> VStr ''1700000000'']) = Inl TypeError"
    by (simp add: entry_of_def QmdlManifestEntry_init_def entry_keys_def)
  then have "?q ''entries'' = Some (MList []) \<and> comprehension (MList []) = Inr []
        \<and> ?q ''current_entry'' = Some (MDict [''name'' \<mapsto> VStr ''1700000000''])
        \<and> MDict [''name'' \<mapsto> VStr ''1700000000''] \<noteq> MNone
        \<and> entry_of (MDict [''name'' \<mapsto> VStr ''1700000000'']) = Inl TypeError"
    by (simp add: comprehension_def)
  from t [THEN conjunct2, THEN conjunct2, THEN conjunct2, THEN conjunct2, THEN conjunct2,
      rule_format, of ?q "MList []" "[]" "MDict [''name'' \<mapsto> VStr ''1700000000'']" TypeError,
      OF this]
  have 4: "QmdlManifest_from_dict ?q = (?q(''entries'' \<mapsto> MList (map MEntry [])), Inl TypeError)" .
  have p: "percent_str_to_int (VStr ''25%'') = Inr 25"
    by code_simp
  have "dom ?g = {''partition'', ''total_size'', ''used_size'', ''available_size'',
               ''used_percent'', ''mounted_on''}"
    by auto
  then have "dom ?g = {''partition'', ''total_size'', ''used_size'', ''available_size'',
               ''used_percent'', ''mounted_on''}
      \<and> ?g ''partition'' = Some (VStr ''ubi0:usrfs'') \<and> ?g ''mounted_on'' = Some (VStr ''/data'')
      \<and> ?g ''total_size'' = Some (VStr ''2M'') \<and> ?g ''used_size'' = Some (VStr ''0.5M'')
      \<and> ?g ''available_size'' = Some (VStr ''1.5M'') \<and> ?g ''used_percent'' = Some (VStr ''25%'')
      \<and> size_str_to_int (VStr ''2M'') = Inr 2097152 \<and> size_str_to_int (VStr ''0.5M'') = Inr 524288
      \<and> size_str_to_int (VStr ''1.5M'') = Inr 1572864 \<and> percent_str_to_int (VStr ''25%'') = Inr 25"
    using s p by simp
  from t [THEN conjunct1, rule_format,
      of ?g "VStr ''ubi0:usrfs''" "VStr ''/data''" "''2M''" "''0.5M''" "''1.5M''" "''25%''"
        2097152 524288 1572864 25, OF this]
  have 5: "fst (DiskStats_from_dict ?g)
           = ?g(''total_size'' \<mapsto> VInt 2097152, ''used_size'' \<mapsto> VInt 524288,
                ''available_size'' \<mapsto> VInt 1572864, ''used_percent'' \<mapsto> VInt 25)" .
  have "dom ?c = entry_keys"
    by (auto simp: entry_keys_def)
  then have "entry_of (MDict ?c) = Inr ?a"
    by (simp add: entry_of_def QmdlManifestEntry_init_def entry_keys_def)
  moreover have "dom ?w = {''entries'', ''current_entry''}"
    by auto
  ultimately have "dom ?w = {''entries'', ''current_entry''}
        \<and> ?w ''entries'' = Some (MList []) \<and> comprehension (MList []) = Inr []
        \<and> ?w ''current_entry'' = Some (MDict ?c) \<and> MDict ?c \<noteq> MNone
        \<and> entry_of (MDict ?c) = Inr ?a"
    by (simp add: comprehension_def)
  from t [THEN conjunct2, THEN conjunct2, THEN conjunct2, THEN conjunct2, THEN conjunct1,
      rule_format, of ?w "MList []" "[]" "MDict ?c" ?a, OF this]
  have 6: "fst (QmdlManifest_from_dict ?w)
           = ?w(''entries'' \<mapsto> MList (map MEntry []), ''current_entry'' \<mapsto> MEntry ?a)" .
  from 1 2 3 4 5 6 show ?thesis
    by (intro conjI)
qed

section \<open>The client\<close>

lemma RayhunterApi_init_example:
  "RayhunterApi_init ''192.168.1.1'' 8080 = \<lparr>url = ''http://192.168.1.1:8080/''\<rparr>"
  by code_simp

text \<open>
  Claim C8, as amended. For every client method and every response with a client-error or
  server-error status (400 to 599) from the endpoint the method requests, the method raises
  the HTTPError that \<^verbatim>\<open>raise_for_status\<close> raises, as it is, after that one request,
  and returns no value.
\<close>

theorem http_error_propagates:
  "(\<forall>r :: 'j response. 400 \<le> status_code r \<and> status_code r < 600
       \<longrightarrow> raise_for_status r = Inl (HTTPError (status_code r)))
   \<and> (\<forall>self tr w r.
         tr w \<lparr>http_method = GET, target = Urljoin (url self) ''/api/qmdl-manifest'',
               stream = False\<rparr> = Inr r
         \<and> 400 \<le> status_code r \<and> status_code r < 600
         \<longrightarrow> get_manifest self tr w
             = (w @ [\<lparr>http_method = GET, target = Urljoin (url self) ''/api/qmdl-manifest'',
                      stream = False\<rparr>], Inl (HTTPError (status_code r)))
           \<and> active_recording self tr w
             = (w @ [\<lparr>http_method = GET, target = Urljoin (url self) ''/api/qmdl-manifest'',
                      stream = False\<rparr>], Inl (HTTPError (status_code r))))
   \<and> (\<forall>self (tr :: 'j transport) w r filename.
         tr w \<lparr>http_method = GET,
               target = Urljoin (url self) (''/api/analysis-report/'' @ filename),
               stream = True\<rparr> = Inr r
         \<and> 400 \<le> status_code r \<and> status_code r < 600
         \<longrightarrow> get_analysis_report_file self tr filename w
             = (w @ [\<lparr>http_method = GET,
                      target = Urljoin (url self) (''/api/analysis-report/'' @ filename),
                      stream = True\<rparr>], Inl (HTTPError (status_code r))))
   \<and> (\<forall>self (tr :: 'j transport) w r filename.
         tr w \<lparr>http_method = GET, target = Urljoin (url self) (''/api/pcap/'' @ filename),
               stream = True\<rparr> = Inr r
         \<and> 400 \<le> status_code r \<and> status_code r < 600
         \<longrightarrow> get_pcap_file self tr filename w
             = (w @ [\<lparr>http_method = GET, target = Urljoin (url self) (''/api/pcap/'' @ filename),
                      stream = True\<rparr>], Inl (HTTPError (status_code r))))
   \<and> (\<forall>self (tr :: 'j transport) w r filename.
         tr w \<lparr>http_method = GET, target = Urljoin (url self) (''/api/qmdl/'' @ filename),
               stream = True\<rparr> = Inr r
         \<and> 400 \<le> status_code r \<and> status_code r < 600
         \<longrightarrow> get_qmdl_file self tr filename w
             = (w @ [\<lparr>http_method = GET, target = Urljoin (url self) (''/api/qmdl/'' @ filename),
                      stream = True\<rparr>], Inl (HTTPError (status_code r))))
   \<and> (\<forall>self (tr :: 'j transport) w r.
         tr w \<lparr>http_method = POST, target = Urljoin (url self) ''/api/start-recording'',
               stream = False\<rparr> = Inr r
         \<and> 400 \<le> status_code r \<and> status_code r < 600
         \<longrightarrow> start_recording self tr w
             = (w @ [\<lparr>http_method = POST, target = Urljoin (url self) ''/api/start-recording'',
                      stream = False\<rparr>], Inl (HTTPError (status_code r))))
   \<and> (\<forall>self (tr :: 'j transport) w r.
         tr w \<lparr>http_method = POST, target = Urljoin (url self) ''/api/stop-recording'',
               stream = False\<rparr> = Inr r
         \<and> 400 \<le> status_code r \<and> status_code r < 600
         \<longrightarrow> stop_recording self tr w
             = (w @ [\<lparr>http_method = POST, target = Urljoin (url self) ''/api/stop-recording'',
                      stream = False\<rparr>], Inl (HTTPError (status_code r))))
   \<and> (\<forall>self tr w r.
         tr w \<lparr>http_method = GET, target = Urljoin (url self) ''/api/system-stats'',
               stream = False\<rparr> = Inr r
         \<and> 400 \<le> status_code r \<and> status_code r < 600
         \<longrightarrow> system_stats self tr w
             = (w @ [\<lparr>http_method = GET, target = Urljoin (url self) ''/api/system-stats'',
                      stream = False\<rparr>], Inl (HTTPError (status_code r))))"
proof (intro conjI allI impI)
  fix r :: "'j response"
  assume "400 \<le> status_code r \<and> status_code r < 600"
  then show "raise_for_status r = Inl (HTTPError (status_code r))"
    by (simp add: raise_for_status_def)
qed (simp_all add: get_manifest_def active_recording_def get_analysis_report_file_def
    get_pcap_file_def get_qmdl_file_def get_file_content_def start_recording_def
    stop_recording_def system_stats_def send_def raise_for_status_def)

theorem http_error_propagates_witness:
  "stop_recording \<lparr>url = ''http://192.168.1.1:8080/''\<rparr>
     (answer \<lparr>status_code = 500, iter_content = Inr [], json = Inl JSONDecodeError :: error + unit\<rparr>) []
   = ([\<lparr>http_method = POST,
        target = Urljoin ''http://192.168.1.1:8080/'' ''/api/stop-recording'', stream = False\<rparr>],
      Inl (HTTPError 500))
   \<and> get_manifest \<lparr>url = ''http://192.168.1.1:8080/''\<rparr>
     (answer \<lparr>status_code = 404, iter_content = Inr [], json = Inl JSONDecodeError\<rparr>) []
   = ([\<lparr>http_method = GET,
        target = Urljoin ''http://192.168.1.1:8080/'' ''/api/qmdl-manifest'', stream = False\<rparr>],
      Inl (HTTPError 404))
   \<and> get_pcap_file \<lparr>url = ''http://192.168.1.1:8080/''\<rparr>
     (answer \<lparr>status_code = 404, iter_content = Inr [''Not Found''],
        json = Inl JSONDecodeError :: error + unit\<rparr>) ''1700000000'' []
   = ([\<lparr>http_method = GET,
        target = Urljoin ''http://192.168.1.1:8080/'' ''/api/pcap/1700000000'', stream = True\<rparr>],
      Inl (HTTPError 404))
   \<and> system_stats \<lparr>url = ''http://192.168.1.1:8080/''\<rparr>
     (answer \<lparr>status_code = 503, iter_content = Inr [], json = Inl JSONDecodeError\<rparr>) []
   = ([\<lparr>http_method = GET,
        target = Urljoin ''http://192.168.1.1:8080/'' ''/api/system-stats'', stream = False\<rparr>],
      Inl (HTTPError 503))"
proof -
  let ?self = "\<lparr>url = ''http://192.168.1.1:8080/''\<rparr>"
  let ?r = "\<lparr>status_code = 500, iter_content = Inr [], json = Inl JSONDecodeError :: error + unit\<rparr>"
  let ?m = "\<lparr>status_code = 404, iter_content = Inr [],
             json = Inl JSONDecodeError :: error + (string \<rightharpoonup> mval)\<rparr>"
  let ?p = "\<lparr>status_code = 404, iter_content = Inr [''Not Found''],
             json = Inl JSONDecodeError :: error + unit\<rparr>"
  let ?s = "\<lparr>status_code = 503, iter_content = Inr [],
             json = Inl JSONDecodeError :: error + (string \<rightharpoonup> pydict)\<rparr>"
  note t = http_error_propagates [THEN conjunct2]
  have "answer ?r [] \<lparr>http_method = POST, target = Urljoin (url ?self) ''/api/stop-recording'',
               stream = False\<rparr> = Inr ?r
         \<and> 400 \<le> status_code ?r \<and> status_code ?r < 600"
    by (simp add: answer_def)
  from t [THEN conjunct2, THEN conjunct2, THEN conjunct2, THEN conjunct2, THEN conjunct2,
      THEN conjunct1, rule_format, of "answer ?r" "[]" ?self ?r, OF this]
  have 1: "stop_recording ?self (answer ?r) []
    = ([] @ [\<lparr>http_method = POST, target = Urljoin (url ?self) ''/api/stop-recording'',
               stream = False\<rparr>], Inl (HTTPError (status_code ?r)))" .
  have "answer ?m [] \<lparr>http_method = GET, target = Urljoin (url ?self) ''/api/qmdl-manifest'',
               stream = False\<rparr> = Inr ?m
         \<and> 400 \<le> status_code ?m \<and> status_code ?m < 600"
    by (simp add: answer_def)
  from t [THEN conjunct1, rule_format, of "answer ?m" "[]" ?self ?m, OF this, THEN conjunct1]
  have 2: "get_manifest ?self (answer ?m) []
    = ([] @ [\<lparr>http_method = GET, target = Urljoin (url ?self) ''/api/qmdl-manifest'',
               stream = False\<rparr>], Inl (HTTPError (status_code ?m)))" .
  have "answer ?p [] \<lparr>http_method = GET,
               target = Urljoin (url ?self) (''/api/pcap/'' @ ''1700000000''),
               stream = True\<rparr> = Inr ?p
         \<and> 400 \<le> status_code ?p \<and> status_code ?p < 600"
    by (simp add: answer_def)
  from t [THEN conjunct2, THEN conjunct2, THEN conjunct1, rule_format,
      of "answer ?p" "[]" ?self "''1700000000''" ?p, OF this]
  have 3: "get_pcap_file ?self (answer ?p) ''1700000000'' []
    = ([] @ [\<lparr>http_method = GET, target = Urljoin (url ?self) (''/api/pcap/'' @ ''1700000000''),
               stream = True\<rparr>], Inl (HTTPError (status_code ?p)))" .
  have "answer ?s [] \<lparr>http_method = GET, target = Urljoin (url ?self) ''/api/system-stats'',
               stream = False\<rparr> = Inr ?s
         \<and> 400 \<le> status_code ?s \<and> status_code ?s < 600"
    by (simp add: answer_def)
  from t [THEN conjunct2, THEN conjunct2, THEN conjunct2, THEN conjunct2, THEN conjunct2,
      THEN conjunct2, rule_format, of "answer ?s" "[]" ?self ?s, OF this]
  have 4: "system_stats ?self (answer ?s) []
    = ([] @ [\<lparr>http_method = GET, target = Urljoin (url ?self) ''/api/system-stats'',
               stream = False\<rparr>], Inl (HTTPError (status_code ?s)))" .
  from 1 2 3 4 show ?thesis
    by simp
qed

theorem start_recording_not_modified:
  "start_recording \<lparr>url = ''http://192.168.1.1:8080/''\<rparr>
     (answer \<lparr>status_code = 304, iter_content = Inr [], json = Inl JSONDecodeError :: error + unit\<rparr>) []
   = ([\<lparr>http_method = POST,
        target = Urljoin ''http://192.168.1.1:8080/'' ''/api/start-recording'', stream = False\<rparr>],
      Inr ())"
  by (simp add: start_recording_def send_def raise_for_status_def answer_def)

end
